theory Spec2Isabelle
  imports Complex_Main "HOL-Library.Sublist"
begin

section \<open>Python values used by the mapper\<close>

text \<open>
  The development embeds \<^verbatim>\<open>src/mapper/core_mapper.py\<close>: the class
  \<^verbatim>\<open>CNOPSToRxNormMapper\<close> with its methods \<^verbatim>\<open>map_single_drug\<close>,
  \<^verbatim>\<open>_enhance_with_products\<close>, \<^verbatim>\<open>_find_best_product_match\<close>,
  \<^verbatim>\<open>_validate_mapping\<close> and the row loop of \<^verbatim>\<open>process_file\<close>.

  Conventions of the embedding:
  \<^item> a Python \<^verbatim>\<open>str\<close> is a \<open>string\<close>; the strings are ASCII, and \<^verbatim>\<open>str.upper\<close>
    maps the letters a to z to A to Z;
  \<^item> an input record is a dictionary from column names to strings, as the fields
    \<^verbatim>\<open>cnops_code\<close>, \<^verbatim>\<open>original_name\<close> and \<^verbatim>\<open>dci1\<close> of \<^verbatim>\<open>MappingResult\<close> are annotated;
  \<^item> \<^verbatim>\<open>Optional[str]\<close> is \<open>string option\<close>, and the truth value Python gives it in
    \<^verbatim>\<open>if x\<close> is \<open>truthy\<close>: present and not empty;
  \<^item> \<^verbatim>\<open>confidence_score\<close> and the configured thresholds and penalties are Python
    floats; the model computes with exact rationals, the literals 0.9, 0.8, 0.6 and 0.1
    being the decimal fractions;
  \<^item> a raised exception is the left summand of a sum, a returned value the right one;
  \<^item> every call of the terminology client is appended to a list of calls that the methods pass on.
\<close>

type_synonym cnops_record = "string \<rightharpoonup> string"

text \<open>\<^verbatim>\<open>cnops_record.get(key, '')\<close>\<close>

definition get_or_empty :: "cnops_record \<Rightarrow> string \<Rightarrow> string" where
  "get_or_empty r k = (case r k of None \<Rightarrow> [] | Some v \<Rightarrow> v)"

definition truthy :: "string option \<Rightarrow> bool" where
  "truthy x = (case x of None \<Rightarrow> False | Some s \<Rightarrow> s \<noteq> [])"

text \<open>\<^verbatim>\<open>x or ""\<close>\<close>

definition or_empty :: "string option \<Rightarrow> string" where
  "or_empty x = (case x of None \<Rightarrow> [] | Some s \<Rightarrow> s)"

definition upper_char :: "char \<Rightarrow> char" where
  "upper_char c =
     (let n = (of_char c :: nat) in if 97 \<le> n \<and> n \<le> 122 then char_of (n - 32) else c)"

definition upper :: "string \<Rightarrow> string" where
  "upper s = map upper_char s"

text \<open>The ASCII characters that \<^verbatim>\<open>str.strip\<close> removes: tab, line feed, vertical tab,
  form feed, carriage return, the four separators 28 to 31 and the space.\<close>

definition is_space :: "char \<Rightarrow> bool" where
  "is_space c = (let n = (of_char c :: nat) in (9 \<le> n \<and> n \<le> 13) \<or> (28 \<le> n \<and> n \<le> 32))"

definition strip :: "string \<Rightarrow> string" where
  "strip s = rev (dropWhile is_space (rev (dropWhile is_space s)))"

text \<open>\<^verbatim>\<open>str(n)\<close> for an integer, used by the f-strings of the notes.\<close>

fun str_nat :: "nat \<Rightarrow> string" where
  "str_nat n =
     (if n < 10 then [char_of (48 + n)] else str_nat (n div 10) @ [char_of (48 + n mod 10)])"

declare str_nat.simps [simp del]

definition str_int :: "int \<Rightarrow> string" where
  "str_int i = (if i < 0 then CHR ''-'' # str_nat (nat (- i)) else str_nat (nat i))"

text \<open>\<^verbatim>\<open>'; '.join(notes)\<close>\<close>

fun join_notes :: "string list \<Rightarrow> string" where
  "join_notes [] = []"
| "join_notes [x] = x"
| "join_notes (x # y # ys) = x @ ''; '' @ join_notes (y # ys)"

datatype py_exception = TypeError string | AttributeError string

text \<open>\<^verbatim>\<open>str(e)\<close>\<close>

fun str_exception :: "py_exception \<Rightarrow> string" where
  "str_exception (TypeError m) = m"
| "str_exception (AttributeError m) = m"

definition dict_order_message :: string where
  "dict_order_message =
     [CHR 0x27] @ ''<'' @ [CHR 0x27] @ '' not supported between instances of ''
       @ [CHR 0x27] @ ''dict'' @ [CHR 0x27] @ '' and '' @ [CHR 0x27] @ ''dict'' @ [CHR 0x27]"

definition none_upper_message :: string where
  "none_upper_message =
     [CHR 0x27] @ ''NoneType'' @ [CHR 0x27] @ '' object has no attribute ''
       @ [CHR 0x27] @ ''upper'' @ [CHR 0x27]"

section \<open>Data model\<close>

text \<open>The dictionaries that \<^verbatim>\<open>RxNormAPIClient.approximate_search\<close> and
  \<^verbatim>\<open>RxNormAPIClient.get_related_concepts\<close> build with \<^verbatim>\<open>dict.get\<close>: every key is
  present, every value may be \<^verbatim>\<open>None\<close>; the score is compared with the integer 80.\<close>

record candidate =
  c_rxcui :: "string option"
  c_term :: "string option"
  c_score :: int

record product =
  p_rxcui :: "string option"
  p_name :: "string option"
  p_tty :: "string option"
  p_synonym :: "string option"

record mapping_result =
  cnops_code :: string
  original_name :: string
  dci1 :: string
  rxcui :: "string option"
  rxnorm_name :: "string option"
  confidence_score :: rat
  mapping_method :: string
  validation_notes :: "string list"
  alternative_matches :: "candidate list"

datatype api_call =
    Search_by_name string
  | Approximate_search string nat
  | Get_related_concepts string string

text \<open>
  The mapper object: the three operations of the terminology client (the remote service
  behind them is not part of the repository), the two translation dictionaries, the
  values read from the configuration file, and \<^verbatim>\<open>fuzz.ratio\<close> of the library fuzzywuzzy.
\<close>

record mapper =
  api_search_by_name :: "string \<Rightarrow> string option"
  api_approximate_search :: "string \<Rightarrow> nat \<Rightarrow> candidate list"
  api_get_related_concepts :: "string \<Rightarrow> string \<Rightarrow> product list"
  ingredient_translations :: "string \<rightharpoonup> string"
  dose_form_translations :: "string \<rightharpoonup> string"
  threshold_high :: rat
  threshold_medium :: rat
  threshold_low :: rat
  name_similarity_threshold :: rat
  form_mismatch_penalty :: rat
  combination_drug_penalty :: rat
  fuzz_ratio :: "string \<Rightarrow> string \<Rightarrow> int"

type_synonym 'a outcome = "(py_exception + 'a) \<times> api_call list"

section \<open>Product selection\<close>

text \<open>The scoring loop of \<^verbatim>\<open>_find_best_product_match\<close>. \<^verbatim>\<open>product.get('name', '')\<close> finds
  the key, so a name that is \<^verbatim>\<open>None\<close> reaches \<^verbatim>\<open>.upper()\<close> and raises.\<close>

fun score_products ::
  "mapper \<Rightarrow> product list \<Rightarrow> string \<Rightarrow> string \<Rightarrow> py_exception + (int \<times> product) list" where
  "score_products self [] target_strength target_form = Inr []"
| "score_products self (p # ps) target_strength target_form =
     (case p_name p of
        None \<Rightarrow> Inl (AttributeError none_upper_message)
      | Some nm \<Rightarrow>
          (let product_name = upper nm;
               score1 = (if strip target_strength \<noteq> [] \<and> sublist (upper target_strength) product_name
                         then 50 else 0);
               translated_form = (case dose_form_translations self target_form of
                                    None \<Rightarrow> target_form | Some f \<Rightarrow> f);
               score2 = score1 + (if sublist (upper translated_form) product_name then 30 else 0)
           in case score_products self ps target_strength target_form of
                Inl e \<Rightarrow> Inl e
              | Inr rest \<Rightarrow> Inr ((score2, p) # rest)))"

text \<open>
  \<^verbatim>\<open>scored_products.sort(reverse=True)\<close> sorts tuples \<^verbatim>\<open>(score, product)\<close>. Python
  compares two tuples by their first components that differ; when the scores are equal
  and the two dictionaries are not, it evaluates \<^verbatim>\<open>dict < dict\<close>, which raises
  \<^verbatim>\<open>TypeError\<close>. A comparison sort orders two such elements only by comparing two elements
  of that kind, so the call raises exactly when the list holds two of them. Otherwise
  the result is the stable descending order by score.
\<close>

definition sort_raises :: "(int \<times> product) list \<Rightarrow> bool" where
  "sort_raises xs = list_ex (\<lambda>x. list_ex (\<lambda>y. fst x = fst y \<and> snd x \<noteq> snd y) xs) xs"

definition sort_reverse :: "(int \<times> product) list \<Rightarrow> py_exception + (int \<times> product) list" where
  "sort_reverse xs =
     (if sort_raises xs then Inl (TypeError dict_order_message)
      else Inr (rev (sort_key fst (rev xs))))"

text \<open>The two fallbacks at the end of \<^verbatim>\<open>_find_best_product_match\<close>.\<close>

definition first_scd_or_first :: "product list \<Rightarrow> product option" where
  "first_scd_or_first products =
     (case find (\<lambda>p. p_tty p = Some ''SCD'') products of
        Some p \<Rightarrow> Some p
      | None \<Rightarrow> (case products of [] \<Rightarrow> None | p # _ \<Rightarrow> Some p))"

definition find_best_product_match ::
  "mapper \<Rightarrow> product list \<Rightarrow> string \<Rightarrow> string \<Rightarrow> py_exception + product option" where
  "find_best_product_match self products target_strength target_form =
     (if products = [] then Inr None
      else case score_products self products target_strength target_form of
             Inl e \<Rightarrow> Inl e
           | Inr scored_products \<Rightarrow>
               (case sort_reverse scored_products of
                  Inl e \<Rightarrow> Inl e
                | Inr [] \<Rightarrow> Inr (first_scd_or_first products)
                | Inr ((s, best) # _) \<Rightarrow>
                    if s > 0 then Inr (Some best) else Inr (first_scd_or_first products)))"

section \<open>Enhancement and validation\<close>

text \<open>\<^verbatim>\<open>_enhance_with_products\<close>. The selected product is a dictionary with four keys, so
  \<^verbatim>\<open>if best_product\<close> holds whenever a product was returned.\<close>

definition enhance_with_products ::
  "mapper \<Rightarrow> mapping_result \<Rightarrow> cnops_record \<Rightarrow> api_call list \<Rightarrow> mapping_result outcome" where
  "enhance_with_products self result cnops_record calls =
     (case rxcui result of
        None \<Rightarrow> (Inr result, calls)
      | Some ident \<Rightarrow>
          if ident = [] then (Inr result, calls)
          else
            (let products = api_get_related_concepts self ident ''SCD+SBD'';
                 calls1 = calls @ [Get_related_concepts ident ''SCD+SBD'']
             in if products = [] then (Inr result, calls1)
                else
                  (let target_strength = get_or_empty cnops_record ''DOSAGE1'' @ '' ''
                                           @ get_or_empty cnops_record ''UNITE_DOSAGE1'';
                       target_form = get_or_empty cnops_record ''FORME''
                   in case find_best_product_match self products target_strength target_form of
                        Inl e \<Rightarrow> (Inl e, calls1)
                      | Inr None \<Rightarrow> (Inr result, calls1)
                      | Inr (Some best_product) \<Rightarrow>
                          (Inr (result
                             \<lparr> rxcui := p_rxcui best_product,
                               rxnorm_name := p_name best_product,
                               confidence_score := confidence_score result + 1 / 10,
                               validation_notes :=
                                 validation_notes result @ [''Enhanced with specific product''] \<rparr>),
                           calls1))))"

text \<open>The three steps of \<^verbatim>\<open>_validate_mapping\<close> after its first test, named by the
  comments that head them in the source.\<close>

definition check_name_similarity :: "mapper \<Rightarrow> mapping_result \<Rightarrow> mapping_result" where
  "check_name_similarity self result =
     (if truthy (rxnorm_name result) \<and> dci1 result \<noteq> [] then
        (let similarity = fuzz_ratio self (upper (dci1 result)) (upper (or_empty (rxnorm_name result)))
         in if of_int similarity < name_similarity_threshold self
            then result
                   \<lparr> confidence_score := confidence_score result * form_mismatch_penalty self,
                     validation_notes :=
                       validation_notes result @ [''Low name similarity: '' @ str_int similarity @ ''%''] \<rparr>
            else result)
      else result)"

definition check_combination_drugs :: "mapper \<Rightarrow> mapping_result \<Rightarrow> mapping_result" where
  "check_combination_drugs self result =
     (if sublist ''/'' (dci1 result) \<and> \<not> sublist ''/'' (or_empty (rxnorm_name result))
      then result
             \<lparr> confidence_score := confidence_score result * combination_drug_penalty self,
               validation_notes :=
                 validation_notes result @ [''Possible combination drug mismatch''] \<rparr>
      else result)"

definition categorize_confidence :: "mapper \<Rightarrow> mapping_result \<Rightarrow> mapping_result" where
  "categorize_confidence self result =
     result \<lparr> validation_notes := validation_notes result @
       [if confidence_score result \<ge> threshold_high self then ''HIGH confidence mapping''
        else if confidence_score result \<ge> threshold_medium self then ''MEDIUM confidence mapping''
        else if confidence_score result \<ge> threshold_low self then ''LOW confidence - review recommended''
        else ''VERY LOW confidence - manual review required''] \<rparr>"

definition validate_mapping :: "mapper \<Rightarrow> mapping_result \<Rightarrow> cnops_record \<Rightarrow> mapping_result" where
  "validate_mapping self result cnops_record =
     (if \<not> truthy (rxcui result)
      then result
             \<lparr> confidence_score := 0,
               validation_notes := validation_notes result @ [''No RxNorm mapping found''] \<rparr>
      else categorize_confidence self
             (check_combination_drugs self (check_name_similarity self result)))"

section \<open>Resolution of one record\<close>

text \<open>The sequence \<^verbatim>\<open>self._enhance_with_products(...); self._validate_mapping(...);
  return result\<close>: an exception of the enhancement leaves the method before validation.\<close>

definition enhance_validate_return ::
  "mapper \<Rightarrow> mapping_result \<Rightarrow> cnops_record \<Rightarrow> api_call list \<Rightarrow> mapping_result outcome" where
  "enhance_validate_return self result cnops_record calls =
     (case enhance_with_products self result cnops_record calls of
        (Inl e, calls1) \<Rightarrow> (Inl e, calls1)
      | (Inr enhanced, calls1) \<Rightarrow> (Inr (validate_mapping self enhanced cnops_record), calls1))"

text \<open>Strategy 3 and the validation that ends \<^verbatim>\<open>map_single_drug\<close>; both misses of
  strategy 2 fall through to it.\<close>

definition fuzzy_matching ::
  "mapper \<Rightarrow> mapping_result \<Rightarrow> cnops_record \<Rightarrow> api_call list \<Rightarrow> mapping_result outcome" where
  "fuzzy_matching self result cnops_record calls =
     (let matches = api_approximate_search self (dci1 result) 5;
          calls1 = calls @ [Approximate_search (dci1 result) 5]
      in case matches of
           [] \<Rightarrow> (Inr (validate_mapping self result cnops_record), calls1)
         | best_match # others \<Rightarrow>
             if c_score best_match \<ge> 80
             then enhance_validate_return self
                    (result
                       \<lparr> rxcui := c_rxcui best_match,
                         rxnorm_name := c_term best_match,
                         confidence_score := 6 / 10,
                         mapping_method := ''fuzzy_high'',
                         validation_notes :=
                           validation_notes result
                             @ [''Fuzzy match score: '' @ str_int (c_score best_match)],
                         alternative_matches := others \<rparr>)
                    cnops_record calls1
             else (Inr (validate_mapping self result cnops_record), calls1))"

definition new_result :: "cnops_record \<Rightarrow> mapping_result" where
  "new_result cnops_record =
     \<lparr> cnops_code = get_or_empty cnops_record ''CODE'',
       original_name = get_or_empty cnops_record ''NOM'',
       dci1 = get_or_empty cnops_record ''DCI1'',
       rxcui = None,
       rxnorm_name = None,
       confidence_score = 0,
       mapping_method = ''none'',
       validation_notes = [],
       alternative_matches = [] \<rparr>"

definition map_single_drug ::
  "mapper \<Rightarrow> cnops_record \<Rightarrow> api_call list \<Rightarrow> mapping_result outcome" where
  "map_single_drug self cnops_record calls =
     (let result = new_result cnops_record
      in if dci1 result = []
         then (Inr (result \<lparr> validation_notes :=
                              validation_notes result @ [''No DCI1 ingredient specified''] \<rparr>), calls)
         else
           (let found = api_search_by_name self (dci1 result);
                calls1 = calls @ [Search_by_name (dci1 result)]
            in if truthy found
               then enhance_validate_return self
                      (result
                         \<lparr> rxcui := found,
                           rxnorm_name := Some (dci1 result),
                           confidence_score := 9 / 10,
                           mapping_method := ''direct_exact'' \<rparr>)
                      cnops_record calls1
               else
                 (case ingredient_translations self (upper (dci1 result)) of
                    None \<Rightarrow> fuzzy_matching self result cnops_record calls1
                  | Some translated \<Rightarrow>
                      (let found2 = api_search_by_name self translated;
                           calls2 = calls1 @ [Search_by_name translated]
                       in if truthy found2
                          then enhance_validate_return self
                                 (result
                                    \<lparr> rxcui := found2,
                                      rxnorm_name := Some translated,
                                      confidence_score := 8 / 10,
                                      mapping_method := ''translated_exact'',
                                      validation_notes :=
                                        validation_notes result
                                          @ [''Used translation: '' @ dci1 result @ '' -> '' @ translated] \<rparr>)
                                 cnops_record calls2
                          else fuzzy_matching self result cnops_record calls2))))"

section \<open>The batch loop\<close>

text \<open>One dictionary appended to \<^verbatim>\<open>results\<close> in \<^verbatim>\<open>process_file\<close>.\<close>

record output_row =
  row_cnops_code :: string
  row_original_name :: string
  row_dci1 :: string
  row_rxcui :: "string option"
  row_rxnorm_name :: "string option"
  row_confidence_score :: rat
  row_mapping_method :: string
  row_validation_notes :: string
  row_alternatives_count :: nat

definition result_row :: "mapping_result \<Rightarrow> output_row" where
  "result_row mapping_result =
     \<lparr> row_cnops_code = cnops_code mapping_result,
       row_original_name = original_name mapping_result,
       row_dci1 = dci1 mapping_result,
       row_rxcui = rxcui mapping_result,
       row_rxnorm_name = rxnorm_name mapping_result,
       row_confidence_score = confidence_score mapping_result,
       row_mapping_method = mapping_method mapping_result,
       row_validation_notes = join_notes (validation_notes mapping_result),
       row_alternatives_count = length (alternative_matches mapping_result) \<rparr>"

definition error_row :: "cnops_record \<Rightarrow> py_exception \<Rightarrow> output_row" where
  "error_row row e =
     \<lparr> row_cnops_code = get_or_empty row ''CODE'',
       row_original_name = get_or_empty row ''NOM'',
       row_dci1 = get_or_empty row ''DCI1'',
       row_rxcui = None,
       row_rxnorm_name = None,
       row_confidence_score = 0,
       row_mapping_method = ''error'',
       row_validation_notes = ''Error: '' @ str_exception e,
       row_alternatives_count = 0 \<rparr>"

text \<open>The body of the \<^verbatim>\<open>for\<close> loop: \<^verbatim>\<open>try\<close> the resolution, \<^verbatim>\<open>except Exception\<close>
  append the error row. Both exceptions of the model are subclasses of \<^verbatim>\<open>Exception\<close>.\<close>

definition process_row :: "mapper \<Rightarrow> cnops_record \<Rightarrow> api_call list \<Rightarrow> output_row \<times> api_call list" where
  "process_row self row calls =
     (case map_single_drug self row calls of
        (Inr mapping_result, calls1) \<Rightarrow> (result_row mapping_result, calls1)
      | (Inl e, calls1) \<Rightarrow> (error_row row e, calls1))"

fun process_rows :: "mapper \<Rightarrow> cnops_record list \<Rightarrow> api_call list \<Rightarrow> output_row list \<times> api_call list" where
  "process_rows self [] calls = ([], calls)"
| "process_rows self (row # rows) calls =
     (case process_row self row calls of
        (out, calls1) \<Rightarrow>
          (case process_rows self rows calls1 of
             (outs, calls2) \<Rightarrow> (out # outs, calls2)))"

section \<open>The scoring rule in the words of the specification\<close>

text \<open>The points of one product as the specification gives them, with the guard of
  the code on a blank strength: 50 when the strength string, if it is not blank, occurs
  in the display name, both upper-cased, and 30 when the translated dose form (the form
  itself when the table has no entry for it) occurs in it, both upper-cased. It is
  compared below with the scores that the loop of \<^verbatim>\<open>_find_best_product_match\<close>
  computes.\<close>

definition product_points :: "mapper \<Rightarrow> string \<Rightarrow> string \<Rightarrow> product \<Rightarrow> int" where
  "product_points self target_strength target_form p =
     (if strip target_strength \<noteq> [] \<and> sublist (upper target_strength) (upper (or_empty (p_name p)))
      then 50 else 0)
     + (if sublist (upper (case dose_form_translations self target_form of
                             None \<Rightarrow> target_form | Some f \<Rightarrow> f))
             (upper (or_empty (p_name p)))
        then 30 else 0)"


section \<open>Example data\<close>

text \<open>A stub of the terminology client, a translation table and a configuration, for
  evaluating the methods on concrete records. \<open>example_ratio\<close> stands for
  \<^verbatim>\<open>fuzz.ratio\<close> on the pairs of names that the examples compare: 100 on equal
  strings, 27 for ACIDE ACETYLSALICYLIQUE against ASPIRIN, 93 for ASPIRINE against
  ASPIRIN and 42 for ASPIRIN against ASPIRIN 500 MG ORAL TABLET, the values of the
  library's Levenshtein matcher (twice the length of a longest common subsequence over
  the sum of the lengths, in percent, rounded).\<close>

definition example_ratio :: "string \<Rightarrow> string \<Rightarrow> int" where
  "example_ratio a b =
     (if a = b then 100
      else if a = ''ACIDE ACETYLSALICYLIQUE'' \<and> b = ''ASPIRIN'' then 27
      else if a = ''ASPIRINE'' \<and> b = ''ASPIRIN'' then 93
      else if a = ''ASPIRIN'' \<and> b = ''ASPIRIN 500 MG ORAL TABLET'' then 42
      else 0)"

definition example_mapper :: mapper where
  "example_mapper =
     \<lparr> api_search_by_name = (\<lambda>name. if name = ''aspirin'' then Some ''1191'' else None),
       api_approximate_search = (\<lambda>term max_entries. []),
       api_get_related_concepts = (\<lambda>ident tty. []),
       ingredient_translations = [''ACIDE ACETYLSALICYLIQUE'' \<mapsto> ''aspirin''],
       dose_form_translations = [''COMPRIME'' \<mapsto> ''Oral Tablet''],
       threshold_high = 8 / 10,
       threshold_medium = 6 / 10,
       threshold_low = 4 / 10,
       name_similarity_threshold = 70,
       form_mismatch_penalty = 8 / 10,
       combination_drug_penalty = 7 / 10,
       fuzz_ratio = example_ratio \<rparr>"

definition aspirin_record :: cnops_record where
  "aspirin_record = [''CODE'' \<mapsto> ''M1'', ''NOM'' \<mapsto> ''ASPRO'', ''DCI1'' \<mapsto> ''aspirin'',
     ''DOSAGE1'' \<mapsto> ''500'', ''UNITE_DOSAGE1'' \<mapsto> ''MG'', ''FORME'' \<mapsto> ''COMPRIME'']"

definition no_ingredient_record :: cnops_record where
  "no_ingredient_record = [''CODE'' \<mapsto> ''M2'', ''NOM'' \<mapsto> ''PRODUIT'', ''DCI1'' \<mapsto> '''']"

definition no_ingredient_result :: mapping_result where
  "no_ingredient_result =
     \<lparr> cnops_code = ''M2'', original_name = ''PRODUIT'', dci1 = [], rxcui = None,
       rxnorm_name = None, confidence_score = 0, mapping_method = ''none'',
       validation_notes = [''No DCI1 ingredient specified''],
       alternative_matches = [] \<rparr>"

definition unknown_record :: cnops_record where
  "unknown_record = [''CODE'' \<mapsto> ''M3'', ''NOM'' \<mapsto> ''INCONNU'', ''DCI1'' \<mapsto> ''XYZ'']"

definition acide_record :: cnops_record where
  "acide_record = [''CODE'' \<mapsto> ''M4'', ''NOM'' \<mapsto> ''ASPEGIC'',
     ''DCI1'' \<mapsto> ''ACIDE ACETYLSALICYLIQUE'']"

definition translated_base :: mapping_result where
  "translated_base =
     \<lparr> cnops_code = ''M4'', original_name = ''ASPEGIC'', dci1 = ''ACIDE ACETYLSALICYLIQUE'',
       rxcui = Some ''1191'', rxnorm_name = Some ''aspirin'', confidence_score = 8 / 10,
       mapping_method = ''translated_exact'',
       validation_notes = [''Used translation: ACIDE ACETYLSALICYLIQUE -> aspirin''],
       alternative_matches = [] \<rparr>"

text \<open>An approximate search that answers the request for at most five entries with
  seven candidates: the client passes the bound to the service and returns every
  candidate of the response.\<close>

definition seven_candidates :: "candidate list" where
  "seven_candidates =
     [\<lparr> c_rxcui = Some ''1191'', c_term = Some ''aspirin'', c_score = 95 \<rparr>,
      \<lparr> c_rxcui = Some ''1191'', c_term = Some ''Aspirin'', c_score = 95 \<rparr>,
      \<lparr> c_rxcui = Some ''215568'', c_term = Some ''Aspirin Plus'', c_score = 90 \<rparr>,
      \<lparr> c_rxcui = Some ''215568'', c_term = Some ''aspirin plus'', c_score = 90 \<rparr>,
      \<lparr> c_rxcui = Some ''1001473'', c_term = Some ''Aspir-81'', c_score = 85 \<rparr>,
      \<lparr> c_rxcui = Some ''1001473'', c_term = Some ''aspir 81'', c_score = 85 \<rparr>,
      \<lparr> c_rxcui = Some ''202547'', c_term = Some ''Aspirtab'', c_score = 80 \<rparr>]"

definition seven_mapper :: mapper where
  "seven_mapper = example_mapper \<lparr> api_approximate_search := (\<lambda>term max_entries. seven_candidates) \<rparr>"

definition aspirine_record :: cnops_record where
  "aspirine_record = [''CODE'' \<mapsto> ''M5'', ''NOM'' \<mapsto> ''ASPIRINE UPSA'', ''DCI1'' \<mapsto> ''ASPIRINE'']"

definition aspirine_result :: mapping_result where
  "aspirine_result =
     \<lparr> cnops_code = ''M5'', original_name = ''ASPIRINE UPSA'', dci1 = ''ASPIRINE'',
       rxcui = Some ''1191'', rxnorm_name = Some ''aspirin'', confidence_score = 6 / 10,
       mapping_method = ''fuzzy_high'',
       validation_notes = [''Fuzzy match score: 95'', ''MEDIUM confidence mapping''],
       alternative_matches = tl seven_candidates \<rparr>"

text \<open>Products of the ingredient 1191 and a client that returns two of them with the
  same dose form.\<close>

definition aspirin_325 :: product where
  "aspirin_325 = \<lparr> p_rxcui = Some ''212033'', p_name = Some ''aspirin 325 MG Oral Tablet'',
                   p_tty = Some ''SCD'', p_synonym = None \<rparr>"

definition aspirin_81 :: product where
  "aspirin_81 = \<lparr> p_rxcui = Some ''243670'', p_name = Some ''aspirin 81 MG Oral Tablet'',
                  p_tty = Some ''SCD'', p_synonym = None \<rparr>"

definition aspirin_500 :: product where
  "aspirin_500 = \<lparr> p_rxcui = Some ''198467'', p_name = Some ''aspirin 500 MG Oral Tablet'',
                   p_tty = Some ''SCD'', p_synonym = None \<rparr>"

definition bayer_325 :: product where
  "bayer_325 = \<lparr> p_rxcui = Some ''9'', p_name = Some ''Bayer 325 MG Oral Tablet'',
                 p_tty = Some ''SBD'', p_synonym = None \<rparr>"

definition tie_mapper :: mapper where
  "tie_mapper = example_mapper
     \<lparr> api_get_related_concepts :=
         (\<lambda>ident tty. if ident = ''1191'' then [aspirin_325, aspirin_81] else []) \<rparr>"

definition three_records :: "cnops_record list" where
  "three_records = [unknown_record, aspirin_record, no_ingredient_record]"

text \<open>A client whose products for 1191 have different scores for the record of
  aspirin; clients that return a candidate or a product without identifier; a
  configuration whose penalty factor is zero.\<close>

definition select_mapper :: mapper where
  "select_mapper = example_mapper
     \<lparr> api_get_related_concepts :=
         (\<lambda>ident tty. if ident = ''1191'' then [aspirin_325, aspirin_500] else []) \<rparr>"

definition no_candidate_id_mapper :: mapper where
  "no_candidate_id_mapper = example_mapper
     \<lparr> api_approximate_search :=
         (\<lambda>term max_entries. [\<lparr> c_rxcui = None, c_term = Some ''aspirin'', c_score = 95 \<rparr>]) \<rparr>"

definition no_product_id_mapper :: mapper where
  "no_product_id_mapper = example_mapper
     \<lparr> api_get_related_concepts :=
         (\<lambda>ident tty. [\<lparr> p_rxcui = None, p_name = Some ''aspirin 500 MG Oral Tablet'',
                          p_tty = Some ''SCD'', p_synonym = None \<rparr>]) \<rparr>"

definition zero_penalty_mapper :: mapper where
  "zero_penalty_mapper = example_mapper \<lparr> form_mismatch_penalty := 0 \<rparr>"



section \<open>Auxiliary facts\<close>

subsection \<open>What enhancement and validation keep\<close>

lemma validate_keeps [simp]:
  "mapping_method (validate_mapping self r rec) = mapping_method r"
  "dci1 (validate_mapping self r rec) = dci1 r"
  "cnops_code (validate_mapping self r rec) = cnops_code r"
  "original_name (validate_mapping self r rec) = original_name r"
  "alternative_matches (validate_mapping self r rec) = alternative_matches r"
  "rxcui (validate_mapping self r rec) = rxcui r"
  "rxnorm_name (validate_mapping self r rec) = rxnorm_name r"
  by (simp_all add: validate_mapping_def categorize_confidence_def check_combination_drugs_def
        check_name_similarity_def Let_def)

lemma enhance_keeps:
  assumes "enhance_with_products self r rec calls = (Inr r', calls')"
  shows "mapping_method r' = mapping_method r" "dci1 r' = dci1 r"
    "alternative_matches r' = alternative_matches r"
    "cnops_code r' = cnops_code r" "original_name r' = original_name r"
  using assms
  by (auto simp: enhance_with_products_def Let_def split: option.splits if_splits sum.splits)

lemma enhance_calls:
  "snd (enhance_with_products self r rec calls) =
     (if truthy (rxcui r) then calls @ [Get_related_concepts (or_empty (rxcui r)) ''SCD+SBD''] else calls)"
  by (auto simp: enhance_with_products_def Let_def truthy_def or_empty_def split: option.splits if_splits sum.splits)

lemma enhance_no_products:
  "truthy (rxcui r) \<Longrightarrow> api_get_related_concepts self (or_empty (rxcui r)) ''SCD+SBD'' = [] \<Longrightarrow>
   fst (enhance_with_products self r rec calls) = Inr r"
  by (auto simp: enhance_with_products_def Let_def truthy_def or_empty_def split: option.splits if_splits sum.splits)

lemma evr_fst:
  "fst (enhance_validate_return self r rec calls) =
     (case fst (enhance_with_products self r rec calls) of Inl e \<Rightarrow> Inl e
      | Inr r' \<Rightarrow> Inr (validate_mapping self r' rec))"
  by (auto simp: enhance_validate_return_def split: prod.splits sum.splits)

lemma evr_snd:
  "snd (enhance_validate_return self r rec calls) = snd (enhance_with_products self r rec calls)"
  by (auto simp: enhance_validate_return_def split: prod.splits sum.splits)

lemma validate_notes_prefix:
  "prefix (validation_notes r) (validation_notes (validate_mapping self r rec))"
  by (simp add: validate_mapping_def categorize_confidence_def check_combination_drugs_def
        check_name_similarity_def Let_def)

lemma enhance_notes_prefix:
  "enhance_with_products self r rec calls = (Inr r', calls') \<Longrightarrow>
   prefix (validation_notes r) (validation_notes r')"
  by (auto simp: enhance_with_products_def Let_def split: option.splits if_splits sum.splits)

lemma evr_returned:
  assumes "fst (enhance_validate_return self base rec calls) = Inr r"
  shows "mapping_method r = mapping_method base" "dci1 r = dci1 base"
    "alternative_matches r = alternative_matches base"
    "prefix (validation_notes base) (validation_notes r)"
proof -
  from assms obtain r' where e: "fst (enhance_with_products self base rec calls) = Inr r'"
    and r: "r = validate_mapping self r' rec"
    by (auto simp: evr_fst split: sum.splits)
  from e obtain cs where c: "enhance_with_products self base rec calls = (Inr r', cs)"
    by (cases "enhance_with_products self base rec calls") auto
  from enhance_keeps [OF c] show "mapping_method r = mapping_method base" "dci1 r = dci1 base"
    "alternative_matches r = alternative_matches base"
    by (simp_all add: r)
  from enhance_notes_prefix [OF c] validate_notes_prefix [of r' self rec]
  show "prefix (validation_notes base) (validation_notes r)"
    unfolding r by (rule prefix_order.trans)
qed

lemma evr_total:
  "(\<forall>e. fst (enhance_with_products self base rec calls) \<noteq> Inl e) \<Longrightarrow>
   \<exists>r. fst (enhance_validate_return self base rec calls) = Inr r"
  by (cases "fst (enhance_with_products self base rec calls)") (auto simp: evr_fst)

lemma reaches_fuzzy_matching:
  assumes "get_or_empty rec ''DCI1'' \<noteq> []"
    and "\<not> truthy (api_search_by_name self (get_or_empty rec ''DCI1''))"
    and "\<forall>t. ingredient_translations self (upper (get_or_empty rec ''DCI1'')) = Some t
           \<longrightarrow> \<not> truthy (api_search_by_name self t)"
  shows "map_single_drug self rec calls =
           fuzzy_matching self (new_result rec) rec
             (calls @ Search_by_name (get_or_empty rec ''DCI1'')
                # (case ingredient_translations self (upper (get_or_empty rec ''DCI1'')) of
                     None \<Rightarrow> [] | Some t \<Rightarrow> [Search_by_name t]))"
proof -
  have d: "dci1 (new_result rec) = get_or_empty rec ''DCI1''" by (simp add: new_result_def)
  show ?thesis using assms
    by (auto simp: map_single_drug_def Let_def d split: option.splits)
qed


subsection \<open>Returned results are validated\<close>

lemma validate_no_match:
  "\<not> truthy (rxcui r) \<Longrightarrow>
   validate_mapping self r rec =
     r \<lparr> confidence_score := 0,
         validation_notes := validation_notes r @ [''No RxNorm mapping found''] \<rparr>"
  by (simp add: validate_mapping_def)

lemma validated_no_match:
  assumes "r = validate_mapping self r0 rec" and "\<not> truthy (rxcui r)"
  shows "confidence_score r = 0 \<and> last (validation_notes r) = ''No RxNorm mapping found''"
proof -
  from assms have "\<not> truthy (rxcui r0)" by simp
  from validate_no_match [OF this] assms(1) show ?thesis by simp
qed

lemma evr_validated:
  "fst (enhance_validate_return self r rec calls) = Inr r' \<Longrightarrow> \<exists>r0. r' = validate_mapping self r0 rec"
  by (auto simp: evr_fst split: sum.splits)

lemma fuzzy_validated:
  "fst (fuzzy_matching self r rec calls) = Inr r' \<Longrightarrow> \<exists>r0. r' = validate_mapping self r0 rec"
  by (auto simp: fuzzy_matching_def Let_def split: list.splits if_splits dest: evr_validated)

lemma map_single_drug_validated:
  assumes "get_or_empty rec ''DCI1'' \<noteq> []" and "fst (map_single_drug self rec calls) = Inr r"
  shows "\<exists>r0. r = validate_mapping self r0 rec"
proof -
  have d: "dci1 (new_result rec) \<noteq> []" using assms(1) by (simp add: new_result_def)
  show ?thesis
    using assms(2) d
    by (auto simp: map_single_drug_def Let_def split: if_splits option.splits
          dest: evr_validated fuzzy_validated)
qed


subsection \<open>The selected product\<close>

lemma score_products_points:
  "score_products self ps ts tf = Inr scored \<Longrightarrow>
   scored = map (\<lambda>p. (product_points self ts tf p, p)) ps"
  by (induction ps arbitrary: scored)
    (auto simp: product_points_def Let_def or_empty_def split: option.splits sum.splits)

lemma sort_raises_iff:
  "sort_raises xs \<longleftrightarrow> (\<exists>x\<in>set xs. \<exists>y\<in>set xs. fst x = fst y \<and> snd x \<noteq> snd y)"
  by (auto simp: sort_raises_def list_ex_iff)

lemma sort_reverse_Inr:
  "sort_reverse xs = Inr ys \<Longrightarrow> \<not> sort_raises xs \<and> ys = rev (sort_key fst (rev xs))"
  by (auto simp: sort_reverse_def split: if_splits)

lemma sorted_map_last:
  "sorted (map f zs) \<Longrightarrow> z \<in> set zs \<Longrightarrow> f z \<le> f (last zs)"
  by (induction zs) auto

lemma hd_sort_reverse:
  assumes "xs \<noteq> []"
  shows "hd (rev (sort_key f (rev xs))) \<in> set xs"
    and "\<forall>x\<in>set xs. f x \<le> f (hd (rev (sort_key f (rev xs))))"
proof -
  let ?zs = "sort_key f (rev xs)"
  have ne: "?zs \<noteq> []" using assms by (metis length_sort length_rev length_0_conv)
  have s: "set ?zs = set xs" by simp
  have h: "hd (rev ?zs) = last ?zs" by (rule hd_rev)
  from ne have "last ?zs \<in> set ?zs" by (rule last_in_set)
  with s h show "hd (rev ?zs) \<in> set xs" by simp
  have "sorted (map f ?zs)" by (rule sorted_sort_key)
  from sorted_map_last [OF this] s h show "\<forall>x\<in>set xs. f x \<le> f (hd (rev ?zs))" by auto
qed

lemma first_scd_or_first_in:
  "ps \<noteq> [] \<Longrightarrow> \<exists>p\<in>set ps. first_scd_or_first ps = Some p"
  by (cases ps) (auto simp: first_scd_or_first_def find_Some_iff split: option.splits)

lemma product_points_nonneg: "0 \<le> product_points self ts tf p"
  by (simp add: product_points_def)

text \<open>What a returned selection is: a product of the list with the greatest score, when
  no two different products of the list have the same score.\<close>

lemma find_best_returns:
  assumes ne: "products \<noteq> []"
    and ret: "find_best_product_match self products ts tf = Inr res"
  shows "\<exists>best\<in>set products. res = Some best
           \<and> (\<forall>p\<in>set products. product_points self ts tf p \<le> product_points self ts tf best)
           \<and> (\<forall>p\<in>set products. \<forall>q\<in>set products.
                  product_points self ts tf p = product_points self ts tf q \<longrightarrow> p = q)
           \<and> score_products self products ts tf
                = Inr (map (\<lambda>p. (product_points self ts tf p, p)) products)"
proof -
  let ?pts = "product_points self ts tf"
  from ret ne obtain scored where sc: "score_products self products ts tf = Inr scored"
    by (auto simp: find_best_product_match_def split: sum.splits)
  from score_products_points [OF sc] have scored: "scored = map (\<lambda>p. (?pts p, p)) products" .
  from ret ne sc obtain sorted_products where so: "sort_reverse scored = Inr sorted_products"
    by (auto simp: find_best_product_match_def split: sum.splits)
  from sort_reverse_Inr [OF so] have nr: "\<not> sort_raises scored"
    and sorted_eq: "sorted_products = rev (sort_key fst (rev scored))" by simp_all
  have uniq: "\<forall>p\<in>set products. \<forall>q\<in>set products. ?pts p = ?pts q \<longrightarrow> p = q"
    using nr unfolding sort_raises_iff scored by auto
  have sne: "scored \<noteq> []" using ne scored by simp
  obtain s best where hd: "hd sorted_products = (s, best)" by (cases "hd sorted_products")
  from hd_sort_reverse [OF sne, of fst] hd sorted_eq
  have mem: "(s, best) \<in> set scored" and mx: "\<forall>x\<in>set scored. fst x \<le> s" by auto
  from mem scored have b: "best \<in> set products" and sb: "s = ?pts best" by auto
  from mx scored sb have bmax: "\<forall>p\<in>set products. ?pts p \<le> ?pts best" by auto
  have spne: "sorted_products \<noteq> []" using sne sorted_eq
    by (metis length_sort length_rev length_0_conv)
  then obtain rest where sp: "sorted_products = (s, best) # rest"
    using hd by (cases sorted_products) auto
  show ?thesis
  proof (cases "s > 0")
    case True
    with ret ne sc so sp have "res = Some best"
      by (simp add: find_best_product_match_def)
    with b bmax uniq sc scored show ?thesis by auto
  next
    case False
    with ret ne sc so sp have r: "res = first_scd_or_first products"
      by (simp add: find_best_product_match_def)
    from first_scd_or_first_in [OF ne] obtain p where p: "p \<in> set products"
      and fp: "first_scd_or_first products = Some p" by auto
    have zero: "\<forall>q\<in>set products. ?pts q = 0"
    proof
      fix q assume "q \<in> set products"
      with bmax sb False have "?pts q \<le> 0" by force
      with product_points_nonneg [of self ts tf q] show "?pts q = 0" by simp
    qed
    with p have "\<forall>q\<in>set products. ?pts q \<le> ?pts p" by simp
    with p r fp uniq sc scored show ?thesis by auto
  qed
qed

text \<open>Whenever two different products of the list have the same points (and every
  product has a name), the selection raises.\<close>

lemma score_products_named:
  "\<forall>p\<in>set ps. p_name p \<noteq> None \<Longrightarrow>
   score_products self ps ts tf = Inr (map (\<lambda>p. (product_points self ts tf p, p)) ps)"
  by (induction ps) (auto simp: product_points_def Let_def or_empty_def)

lemma equal_scores_raise:
  assumes "\<forall>p\<in>set products. p_name p \<noteq> None"
    and "p \<in> set products" and "q \<in> set products" and "p \<noteq> q"
    and "product_points self ts tf p = product_points self ts tf q"
  shows "find_best_product_match self products ts tf = Inl (TypeError dict_order_message)"
proof -
  let ?scored = "map (\<lambda>p. (product_points self ts tf p, p)) products"
  have ne: "products \<noteq> []" using assms(2) by auto
  have sc: "score_products self products ts tf = Inr ?scored"
    using assms(1) by (rule score_products_named)
  have "(product_points self ts tf p, p) \<in> set ?scored"
    and "(product_points self ts tf q, q) \<in> set ?scored"
    using assms(2,3) by auto
  with assms(4,5) have "sort_raises ?scored"
    unfolding sort_raises_iff by force
  then have "sort_reverse ?scored = Inl (TypeError dict_order_message)"
    by (simp add: sort_reverse_def)
  with ne sc show ?thesis
    by (simp add: find_best_product_match_def)
qed


subsection \<open>Independence of earlier calls\<close>

text \<open>The client answers by its arguments alone, so the outcome of resolving a record
  does not depend on the calls made before.\<close>

lemma enhance_fst_calls:
  "fst (enhance_with_products self r rec calls) = fst (enhance_with_products self r rec [])"
  by (simp add: enhance_with_products_def Let_def split: option.splits sum.splits)

lemma evr_fst_calls:
  "fst (enhance_validate_return self r rec calls) = fst (enhance_validate_return self r rec [])"
  using enhance_fst_calls [of self r rec calls] by (simp add: evr_fst)

lemma fuzzy_fst_calls:
  "fst (fuzzy_matching self r rec calls) = fst (fuzzy_matching self r rec [])"
  using evr_fst_calls [of self _ rec "calls @ [Approximate_search (dci1 r) 5]"]
    evr_fst_calls [of self _ rec "[Approximate_search (dci1 r) 5]"]
  by (simp add: fuzzy_matching_def Let_def split: list.splits)

lemma map_single_drug_fst_calls:
  "fst (map_single_drug self rec calls) = fst (map_single_drug self rec [])"
proof -
  have e: "fst (enhance_validate_return self r rec cs) = fst (enhance_validate_return self r rec cs')"
    for r cs cs'
    using evr_fst_calls [of self r rec cs] evr_fst_calls [of self r rec cs'] by simp
  have f: "fst (fuzzy_matching self r rec cs) = fst (fuzzy_matching self r rec cs')"
    for r cs cs'
    using fuzzy_fst_calls [of self r rec cs] fuzzy_fst_calls [of self r rec cs'] by simp
  show ?thesis
    by (auto simp: map_single_drug_def Let_def split: option.splits intro: e f)
qed

lemma process_row_fst:
  "fst (process_row self row calls) =
     (case fst (map_single_drug self row []) of
        Inr mapping_result \<Rightarrow> result_row mapping_result
      | Inl e \<Rightarrow> error_row row e)"
  using map_single_drug_fst_calls [of self row calls]
  by (auto simp: process_row_def split: prod.splits sum.splits)

lemma process_rows_fst:
  "fst (process_rows self rows calls) = map (\<lambda>row. fst (process_row self row [])) rows"
proof (induction rows arbitrary: calls)
  case Nil
  show ?case by simp
next
  case (Cons row rows)
  obtain out calls1 where r: "process_row self row calls = (out, calls1)"
    by (cases "process_row self row calls")
  obtain outs calls2 where rs: "process_rows self rows calls1 = (outs, calls2)"
    by (cases "process_rows self rows calls1")
  have "out = fst (process_row self row calls)" using r by simp
  then have o: "out = fst (process_row self row [])"
    by (simp add: process_row_fst)
  have "outs = fst (process_rows self rows calls1)" using rs by simp
  then have os: "outs = map (\<lambda>row. fst (process_row self row [])) rows"
    by (simp add: Cons.IH)
  from r rs o os show ?case by simp
qed


subsection \<open>Matched and unmatched results\<close>

lemma enhance_result:
  assumes "enhance_with_products self r rec calls = (Inr r', calls')"
  shows "r' = r \<or>
    (\<exists>best\<in>set (api_get_related_concepts self (or_empty (rxcui r)) ''SCD+SBD'').
       r' = r \<lparr> rxcui := p_rxcui best, rxnorm_name := p_name best,
                confidence_score := confidence_score r + 1 / 10,
                validation_notes := validation_notes r @ [''Enhanced with specific product''] \<rparr>)"
proof (cases "truthy (rxcui r) \<and> api_get_related_concepts self (or_empty (rxcui r)) ''SCD+SBD'' \<noteq> []")
  case False
  with assms show ?thesis
    by (auto simp: enhance_with_products_def Let_def truthy_def or_empty_def
          split: option.splits if_splits)
next
  case True
  let ?ps = "api_get_related_concepts self (or_empty (rxcui r)) ''SCD+SBD''"
  let ?ts = "get_or_empty rec ''DOSAGE1'' @ '' '' @ get_or_empty rec ''UNITE_DOSAGE1''"
  let ?tf = "get_or_empty rec ''FORME''"
  from True obtain ident where i: "rxcui r = Some ident" "ident \<noteq> []"
    by (auto simp: truthy_def split: option.splits)
  from True i have ne: "api_get_related_concepts self ident ''SCD+SBD'' \<noteq> []"
    by (simp add: or_empty_def)
  from assms i ne obtain res where f: "find_best_product_match self ?ps ?ts ?tf = Inr res"
    by (auto simp: enhance_with_products_def Let_def or_empty_def split: sum.splits)
  from True have "?ps \<noteq> []" by simp
  from find_best_returns [OF this f] obtain best where b: "best \<in> set ?ps" and s: "res = Some best"
    by blast
  from assms i ne f s have "r' = r \<lparr> rxcui := p_rxcui best, rxnorm_name := p_name best,
                confidence_score := confidence_score r + 1 / 10,
                validation_notes := validation_notes r @ [''Enhanced with specific product''] \<rparr>"
    by (auto simp: enhance_with_products_def Let_def or_empty_def)
  with b show ?thesis by blast
qed

lemma truthy_not_None: "truthy x \<Longrightarrow> x \<noteq> None"
  by (cases x) (auto simp: truthy_def)

lemma validate_confidence_positive:
  assumes "truthy (rxcui r)" and "confidence_score r \<noteq> 0"
    and "form_mismatch_penalty self \<noteq> 0 \<and> combination_drug_penalty self \<noteq> 0"
  shows "confidence_score (validate_mapping self r rec) \<noteq> 0"
  using assms
  by (simp add: validate_mapping_def categorize_confidence_def check_combination_drugs_def
        check_name_similarity_def Let_def)

text \<open>A result that enhancement and validation return for a base result of positive
  confidence.\<close>

lemma enhanced_validated:
  assumes c: "0 < confidence_score base"
    and ret: "fst (enhance_validate_return self base rec calls) = Inr r"
  shows "mapping_method r = mapping_method base
       \<and> (\<not> truthy (rxcui r) \<longrightarrow> confidence_score r = 0)
       \<and> (form_mismatch_penalty self \<noteq> 0 \<and> combination_drug_penalty self \<noteq> 0
            \<longrightarrow> truthy (rxcui r) \<longrightarrow> confidence_score r \<noteq> 0)
       \<and> (truthy (rxcui base)
            \<and> (\<forall>ident tty. \<forall>p\<in>set (api_get_related_concepts self ident tty). truthy (p_rxcui p))
            \<longrightarrow> truthy (rxcui r))"
proof -
  from ret obtain r' where e: "fst (enhance_with_products self base rec calls) = Inr r'"
    and r: "r = validate_mapping self r' rec"
    by (auto simp: evr_fst split: sum.splits)
  from e obtain cs where ec: "enhance_with_products self base rec calls = (Inr r', cs)"
    by (cases "enhance_with_products self base rec calls") auto
  from enhance_result [OF ec] c have c': "confidence_score r' \<noteq> 0"
    by auto
  have m: "mapping_method r = mapping_method base"
    using enhance_keeps(1) [OF ec] by (simp add: r)
  have z: "confidence_score r = 0" if "\<not> truthy (rxcui r)"
    using validated_no_match [OF r that] by simp
  have nz: "confidence_score r \<noteq> 0"
    if "form_mismatch_penalty self \<noteq> 0 \<and> combination_drug_penalty self \<noteq> 0"
      and "truthy (rxcui r)"
    using validate_confidence_positive [OF _ c' that(1), of rec] that(2) by (simp add: r)
  have t: "truthy (rxcui r)"
    if "truthy (rxcui base)
        \<and> (\<forall>ident tty. \<forall>p\<in>set (api_get_related_concepts self ident tty). truthy (p_rxcui p))"
    using enhance_result [OF ec] that by (auto simp: r)
  from m z nz t show ?thesis by blast
qed

lemma fresh_validated:
  "rxcui (validate_mapping self (new_result rec) rec) = None
   \<and> confidence_score (validate_mapping self (new_result rec) rec) = 0
   \<and> mapping_method (validate_mapping self (new_result rec) rec) = ''none''"
  by (simp add: validate_mapping_def new_result_def truthy_def)

lemma fuzzy_returned:
  assumes ret: "fst (fuzzy_matching self (new_result rec) rec calls) = Inr r"
  shows "(mapping_method r = ''fuzzy_high''
          \<and> (\<not> truthy (rxcui r) \<longrightarrow> confidence_score r = 0)
          \<and> (form_mismatch_penalty self \<noteq> 0 \<and> combination_drug_penalty self \<noteq> 0
               \<longrightarrow> truthy (rxcui r) \<longrightarrow> confidence_score r \<noteq> 0)
          \<and> ((\<forall>term n. \<forall>c\<in>set (api_approximate_search self term n). truthy (c_rxcui c))
               \<and> (\<forall>ident tty. \<forall>p\<in>set (api_get_related_concepts self ident tty). truthy (p_rxcui p))
               \<longrightarrow> truthy (rxcui r)))
       \<or> (rxcui r = None \<and> confidence_score r = 0 \<and> mapping_method r = ''none'')"
proof (cases "api_approximate_search self (dci1 (new_result rec)) 5")
  case Nil
  with ret fresh_validated [of self rec] show ?thesis
    by (simp add: fuzzy_matching_def Let_def)
next
  case (Cons best_match others)
  show ?thesis
  proof (cases "c_score best_match \<ge> 80")
    case False
    with Cons ret fresh_validated [of self rec] show ?thesis
      by (simp add: fuzzy_matching_def Let_def)
  next
    case True
    let ?base = "(new_result rec)
                       \<lparr> rxcui := c_rxcui best_match,
                         rxnorm_name := c_term best_match,
                         confidence_score := 6 / 10,
                         mapping_method := ''fuzzy_high'',
                         validation_notes :=
                           validation_notes (new_result rec)
                             @ [''Fuzzy match score: '' @ str_int (c_score best_match)],
                         alternative_matches := others \<rparr>"
    from True Cons ret
    have e: "fst (enhance_validate_return self ?base rec
                   (calls @ [Approximate_search (dci1 (new_result rec)) 5])) = Inr r"
      by (simp add: fuzzy_matching_def Let_def)
    have b: "truthy (rxcui ?base)"
      if "\<forall>term n. \<forall>c\<in>set (api_approximate_search self term n). truthy (c_rxcui c)"
      using that Cons by (simp add: all_conj_distrib) (metis list.set_intros(1))
    have c: "0 < confidence_score ?base" by simp
    from enhanced_validated [OF c e] b show ?thesis by auto
  qed
qed

subsection \<open>Evaluations on the example data\<close>

lemma aspirin_record_dci1: "get_or_empty aspirin_record ''DCI1'' = ''aspirin''"
  by (simp add: aspirin_record_def get_or_empty_def)

lemma upper_acide: "upper ''ACIDE ACETYLSALICYLIQUE'' = ''ACIDE ACETYLSALICYLIQUE''"
  by code_simp

lemma acide_no_slash: "\<not> sublist ''/'' ''ACIDE ACETYLSALICYLIQUE''"
  by code_simp

lemma upper_aspirin: "upper ''aspirin'' = ''ASPIRIN''"
  by code_simp

lemma str_int_27: "str_int 27 = ''27''"
  by code_simp

lemma aspirine_dci1: "get_or_empty aspirine_record ''DCI1'' = ''ASPIRINE''"
  by (simp add: aspirine_record_def get_or_empty_def)

lemma upper_aspirine: "upper ''ASPIRINE'' = ''ASPIRINE''"
  by code_simp

lemma str_int_95: "str_int 95 = ''95''"
  by code_simp

lemma aspirine_no_slash: "\<not> sublist ''/'' ''ASPIRINE''"
  by code_simp

lemma seven_mapper_aspirine:
  "map_single_drug seven_mapper aspirine_record [] =
     (Inr aspirine_result,
      [Search_by_name ''ASPIRINE'', Approximate_search ''ASPIRINE'' 5,
       Get_related_concepts ''1191'' ''SCD+SBD''])"
  by (simp add: map_single_drug_def new_result_def Let_def upper_aspirine upper_aspirin
        fuzzy_matching_def seven_mapper_def seven_candidates_def
        enhance_validate_return_def enhance_with_products_def validate_mapping_def
        check_name_similarity_def check_combination_drugs_def categorize_confidence_def
        truthy_def or_empty_def aspirine_record_def get_or_empty_def example_mapper_def
        example_ratio_def str_int_27 str_int_95 aspirine_no_slash aspirine_result_def)

lemma select_500: "find_best_product_match example_mapper [aspirin_325, aspirin_500] ''500 MG'' ''COMPRIME''
   = Inr (Some aspirin_500)"
  by code_simp

lemma select_mapper_result:
  "fst (map_single_drug select_mapper aspirin_record []) =
     Inr \<lparr> cnops_code = ''M1'', original_name = ''ASPRO'', dci1 = ''aspirin'',
           rxcui = Some ''198467'', rxnorm_name = Some ''aspirin 500 MG Oral Tablet'',
           confidence_score = 8 / 10, mapping_method = ''direct_exact'',
           validation_notes = [''Enhanced with specific product'', ''Low name similarity: 42%'',
                               ''HIGH confidence mapping''],
           alternative_matches = [] \<rparr>"
  by code_simp


lemma no_product_id_result:
  "fst (map_single_drug no_product_id_mapper aspirin_record []) =
     Inr \<lparr> cnops_code = ''M1'', original_name = ''ASPRO'', dci1 = ''aspirin'',
           rxcui = None, rxnorm_name = Some ''aspirin 500 MG Oral Tablet'', confidence_score = 0,
           mapping_method = ''direct_exact'',
           validation_notes = [''Enhanced with specific product'', ''No RxNorm mapping found''],
           alternative_matches = [] \<rparr>"
  by code_simp

text \<open>Two different products without a positive score: the sort raises before the
  fallback to the first product of type SCD is reached.\<close>

lemma zero_scores_raise:
  "score_products example_mapper [bayer_325, aspirin_325] ''500 MG'' ''SIROP''
     = Inr [(0, bayer_325), (0, aspirin_325)]
   \<and> find_best_product_match example_mapper [bayer_325, aspirin_325] ''500 MG'' ''SIROP''
     = Inl (TypeError dict_order_message)
   \<and> first_scd_or_first [bayer_325, aspirin_325] = Some aspirin_325"
  by code_simp

section \<open>Strategy 1\<close>

text \<open>
  What the first strategy does. When the ingredient is not empty and the exact lookup of
  the raw ingredient name finds an identifier, \<^verbatim>\<open>map_single_drug\<close> is enhancement
  followed by validation of the result that has the identifier found, the raw ingredient
  name as matched name, confidence 0.9 and method \<^verbatim>\<open>direct_exact\<close>. The only calls of the
  client are that exact lookup and the related-concept query of the enhancement: no
  second exact lookup and no approximate search. Every result returned has the method
  \<^verbatim>\<open>direct_exact\<close>; a result is returned if the enhancement does not raise; with no
  related products the result is the validated base result.
\<close>

lemma direct_exact_strategy:
  assumes "get_or_empty rec ''DCI1'' \<noteq> []"
    and "truthy (api_search_by_name self (get_or_empty rec ''DCI1''))"
  shows "let d = get_or_empty rec ''DCI1'';
             base = (new_result rec)
                      \<lparr> rxcui := api_search_by_name self d, rxnorm_name := Some d,
                        confidence_score := 9 / 10, mapping_method := ''direct_exact'' \<rparr>
         in map_single_drug self rec calls
              = enhance_validate_return self base rec (calls @ [Search_by_name d])
          \<and> snd (map_single_drug self rec calls)
              = calls @ [Search_by_name d,
                         Get_related_concepts (or_empty (api_search_by_name self d)) ''SCD+SBD'']
          \<and> (\<forall>r. fst (map_single_drug self rec calls) = Inr r \<longrightarrow>
                 mapping_method r = ''direct_exact'' \<and> dci1 r = d \<and> alternative_matches r = [])
          \<and> ((\<forall>e. fst (enhance_with_products self base rec (calls @ [Search_by_name d])) \<noteq> Inl e) \<longrightarrow>
               (\<exists>r. fst (map_single_drug self rec calls) = Inr r))
          \<and> (api_get_related_concepts self (or_empty (api_search_by_name self d)) ''SCD+SBD'' = [] \<longrightarrow>
               fst (map_single_drug self rec calls) = Inr (validate_mapping self base rec))"
proof -
  define d where "d = get_or_empty rec ''DCI1''"
  define base where "base = (new_result rec)
                      \<lparr> rxcui := api_search_by_name self d, rxnorm_name := Some d,
                        confidence_score := 9 / 10, mapping_method := ''direct_exact'' \<rparr>"
  have d: "dci1 (new_result rec) = d" by (simp add: new_result_def d_def)
  have eq: "map_single_drug self rec calls
              = enhance_validate_return self base rec (calls @ [Search_by_name d])"
    using assms by (simp add: map_single_drug_def Let_def d base_def d_def[symmetric])
  have tr: "truthy (rxcui base)" using assms by (simp add: base_def d_def)
  have calls: "snd (map_single_drug self rec calls)
              = calls @ [Search_by_name d,
                         Get_related_concepts (or_empty (api_search_by_name self d)) ''SCD+SBD'']"
    using tr by (simp add: eq evr_snd enhance_calls) (simp add: base_def)
  have ret: "mapping_method r = ''direct_exact'' \<and> dci1 r = d \<and> alternative_matches r = []"
    if "fst (map_single_drug self rec calls) = Inr r" for r
  proof -
    from that obtain r' where e: "fst (enhance_with_products self base rec (calls @ [Search_by_name d])) = Inr r'"
      and r: "r = validate_mapping self r' rec"
      by (auto simp: eq evr_fst split: sum.splits)
    from e obtain cs where "enhance_with_products self base rec (calls @ [Search_by_name d]) = (Inr r', cs)"
      by (cases "enhance_with_products self base rec (calls @ [Search_by_name d])") auto
    from enhance_keeps[OF this] show ?thesis
      by (simp add: r base_def new_result_def d_def)
  qed
  have tot: "\<exists>r. fst (map_single_drug self rec calls) = Inr r"
    if "\<forall>e. fst (enhance_with_products self base rec (calls @ [Search_by_name d])) \<noteq> Inl e"
    using that by (cases "fst (enhance_with_products self base rec (calls @ [Search_by_name d]))")
      (auto simp: eq evr_fst)
  have nop: "fst (map_single_drug self rec calls) = Inr (validate_mapping self base rec)"
    if "api_get_related_concepts self (or_empty (api_search_by_name self d)) ''SCD+SBD'' = []"
    using enhance_no_products[OF tr, of self rec] that by (simp add: eq evr_fst base_def)
  show ?thesis
    unfolding Let_def d_def[symmetric] base_def[symmetric]
    using eq calls ret tot nop by blast
qed

lemma direct_exact_strategy_example:
  "get_or_empty aspirin_record ''DCI1'' \<noteq> []
   \<and> truthy (api_search_by_name example_mapper (get_or_empty aspirin_record ''DCI1''))
   \<and> snd (map_single_drug example_mapper aspirin_record [])
       = [Search_by_name ''aspirin'', Get_related_concepts ''1191'' ''SCD+SBD'']
   \<and> (\<exists>r. fst (map_single_drug example_mapper aspirin_record []) = Inr r
          \<and> mapping_method r = ''direct_exact'' \<and> rxnorm_name r = Some ''aspirin''
          \<and> rxcui r = Some ''1191'')"
proof -
  have h1: "get_or_empty aspirin_record ''DCI1'' \<noteq> []"
    by (simp add: aspirin_record_dci1)
  have h2: "truthy (api_search_by_name example_mapper (get_or_empty aspirin_record ''DCI1''))"
    by (simp add: aspirin_record_dci1 example_mapper_def truthy_def)
  have h3: "api_get_related_concepts example_mapper
              (or_empty (api_search_by_name example_mapper ''aspirin'')) ''SCD+SBD'' = []"
    by (simp add: example_mapper_def)
  have h4: "api_search_by_name example_mapper ''aspirin'' = Some ''1191''"
    by (simp add: example_mapper_def)
  note t = direct_exact_strategy [OF h1 h2, of "[]", unfolded Let_def aspirin_record_dci1 h4]
  have c: "snd (map_single_drug example_mapper aspirin_record [])
       = [Search_by_name ''aspirin'', Get_related_concepts ''1191'' ''SCD+SBD'']"
    using t [THEN conjunct2, THEN conjunct1] by (simp add: or_empty_def)
  have r: "fst (map_single_drug example_mapper aspirin_record []) =
      Inr (validate_mapping example_mapper
            ((new_result aspirin_record)
               \<lparr>rxcui := Some ''1191'', rxnorm_name := Some ''aspirin'',
                  confidence_score := 9 / 10, mapping_method := ''direct_exact''\<rparr>)
            aspirin_record)"
    using t [THEN conjunct2, THEN conjunct2, THEN conjunct2, THEN conjunct2] h3
    by (simp add: h4)
  show ?thesis
    using h1 h2 c by (simp add: r)
qed


text \<open>
  C1. The claim is that for every record with an ingredient that is not empty and an
  exact hit, \<^verbatim>\<open>map_single_drug\<close> returns a result with the method \<^verbatim>\<open>direct_exact\<close>. On
  the record below the ingredient is aspirin and the exact lookup finds 1191, and the
  related-concept query returns two different products of equal score: the sort in
  \<^verbatim>\<open>_find_best_product_match\<close> raises \<^verbatim>\<open>TypeError\<close>, \<^verbatim>\<open>map_single_drug\<close> returns no
  result, and the row of the record in the batch has the method \<^verbatim>\<open>error\<close>.
\<close>

theorem direct_exact_hit_raises:
  "get_or_empty aspirin_record ''DCI1'' = ''aspirin''
   \<and> api_search_by_name tie_mapper ''aspirin'' = Some ''1191''
   \<and> map_single_drug tie_mapper aspirin_record [] =
       (Inl (TypeError dict_order_message),
        [Search_by_name ''aspirin'', Get_related_concepts ''1191'' ''SCD+SBD''])
   \<and> row_mapping_method (fst (process_row tie_mapper aspirin_record [])) = ''error''"
  by code_simp


section \<open>Strategy 3\<close>

text \<open>
  C2, as the code has it. The ingredient is not empty, the exact lookup of it misses,
  the translated lookup misses (no entry in the table, or no identifier for the
  translation), and the approximate search, asked for at most five entries, returns a
  list with a first candidate. If the score of that candidate is at least 80,
  \<^verbatim>\<open>map_single_drug\<close> is enhancement followed by validation of the result that has the
  candidate's identifier and term, confidence 0.6, the method \<^verbatim>\<open>fuzzy_high\<close>, the note
  with the score and all the other candidates as alternatives. Whenever it returns a
  result then, and it does if the enhancement does not raise, the result has that
  method, those alternatives, one fewer than the candidates returned (which is the
  minimum of their number and five, less one, when the service returned at most five),
  and the note first. If the score is below 80 the fresh result is validated and
  returned: no identifier, no alternatives. What happens when the enhancement raises is
  not part of this statement.
\<close>

theorem fuzzy_high_strategy:
  assumes "get_or_empty rec ''DCI1'' \<noteq> []"
    and "\<not> truthy (api_search_by_name self (get_or_empty rec ''DCI1''))"
    and "\<forall>t. ingredient_translations self (upper (get_or_empty rec ''DCI1'')) = Some t
           \<longrightarrow> \<not> truthy (api_search_by_name self t)"
    and "api_approximate_search self (get_or_empty rec ''DCI1'') 5 = best_match # others"
  shows "let d = get_or_empty rec ''DCI1'';
             calls1 = calls @ Search_by_name d
                        # (case ingredient_translations self (upper d) of
                             None \<Rightarrow> [] | Some t \<Rightarrow> [Search_by_name t])
                        @ [Approximate_search d 5];
             fuzzy_note = ''Fuzzy match score: '' @ str_int (c_score best_match);
             base = (new_result rec)
                      \<lparr> rxcui := c_rxcui best_match, rxnorm_name := c_term best_match,
                        confidence_score := 6 / 10, mapping_method := ''fuzzy_high'',
                        validation_notes := [fuzzy_note], alternative_matches := others \<rparr>
         in (c_score best_match \<ge> 80 \<longrightarrow>
               map_single_drug self rec calls = enhance_validate_return self base rec calls1
               \<and> (\<forall>r. fst (map_single_drug self rec calls) = Inr r \<longrightarrow>
                      mapping_method r = ''fuzzy_high'' \<and> alternative_matches r = others
                      \<and> length (alternative_matches r)
                          = length (api_approximate_search self d 5) - 1
                      \<and> (length (api_approximate_search self d 5) \<le> 5 \<longrightarrow>
                            length (alternative_matches r)
                              = min (length (api_approximate_search self d 5)) 5 - 1)
                      \<and> prefix [fuzzy_note] (validation_notes r))
               \<and> ((\<forall>e. fst (enhance_with_products self base rec calls1) \<noteq> Inl e) \<longrightarrow>
                     (\<exists>r. fst (map_single_drug self rec calls) = Inr r)))
          \<and> (c_score best_match < 80 \<longrightarrow>
               map_single_drug self rec calls
                 = (Inr ((new_result rec)
                      \<lparr> validation_notes := [''No RxNorm mapping found''] \<rparr>), calls1))"
proof -
  define d where "d = get_or_empty rec ''DCI1''"
  define calls1 where "calls1 = calls @ Search_by_name d
                        # (case ingredient_translations self (upper d) of
                             None \<Rightarrow> [] | Some t \<Rightarrow> [Search_by_name t])
                        @ [Approximate_search d 5]"
  define fuzzy_note where "fuzzy_note = ''Fuzzy match score: '' @ str_int (c_score best_match)"
  define base where "base = (new_result rec)
                      \<lparr> rxcui := c_rxcui best_match, rxnorm_name := c_term best_match,
                        confidence_score := 6 / 10, mapping_method := ''fuzzy_high'',
                        validation_notes := [fuzzy_note], alternative_matches := others \<rparr>"
  have dn: "dci1 (new_result rec) = d" by (simp add: new_result_def d_def)
  note m = reaches_fuzzy_matching [OF assms(1-3), of calls, folded d_def]
  have hi: "map_single_drug self rec calls = enhance_validate_return self base rec calls1"
    if "c_score best_match \<ge> 80"
    using that assms(4)
    by (simp add: m fuzzy_matching_def Let_def dn d_def [symmetric] base_def fuzzy_note_def calls1_def
          new_result_def)
  have lo: "map_single_drug self rec calls
                 = (Inr ((new_result rec)
                      \<lparr> validation_notes := [''No RxNorm mapping found''] \<rparr>), calls1)"
    if "c_score best_match < 80"
    using that assms(4)
    by (simp add: m fuzzy_matching_def Let_def dn d_def [symmetric] calls1_def
          validate_mapping_def truthy_def new_result_def)
  have ret: "mapping_method r = ''fuzzy_high'' \<and> alternative_matches r = others
                      \<and> length (alternative_matches r)
                          = length (api_approximate_search self d 5) - 1
                      \<and> (length (api_approximate_search self d 5) \<le> 5 \<longrightarrow>
                            length (alternative_matches r)
                              = min (length (api_approximate_search self d 5)) 5 - 1)
                      \<and> prefix [fuzzy_note] (validation_notes r)"
    if "c_score best_match \<ge> 80" and "fst (map_single_drug self rec calls) = Inr r" for r
  proof -
    from that have "fst (enhance_validate_return self base rec calls1) = Inr r"
      by (simp add: hi)
    from evr_returned [OF this] assms(4) show ?thesis
      by (simp add: base_def d_def)
  qed
  have tot: "\<exists>r. fst (map_single_drug self rec calls) = Inr r"
    if "c_score best_match \<ge> 80"
      and "\<forall>e. fst (enhance_with_products self base rec calls1) \<noteq> Inl e"
    using evr_total [OF that(2)] hi [OF that(1)] by simp
  show ?thesis
    unfolding Let_def d_def [symmetric] calls1_def [symmetric] fuzzy_note_def [symmetric]
      base_def [symmetric]
    using hi lo ret tot by blast
qed

theorem fuzzy_high_strategy_witness:
  "get_or_empty aspirine_record ''DCI1'' \<noteq> []
   \<and> \<not> truthy (api_search_by_name seven_mapper (get_or_empty aspirine_record ''DCI1''))
   \<and> api_approximate_search seven_mapper (get_or_empty aspirine_record ''DCI1'') 5
       = hd seven_candidates # tl seven_candidates
   \<and> c_score (hd seven_candidates) \<ge> 80
   \<and> map_single_drug seven_mapper aspirine_record [] =
       enhance_validate_return seven_mapper
         ((new_result aspirine_record)
            \<lparr> rxcui := Some ''1191'', rxnorm_name := Some ''aspirin'',
              confidence_score := 6 / 10, mapping_method := ''fuzzy_high'',
              validation_notes := [''Fuzzy match score: 95''],
              alternative_matches := tl seven_candidates \<rparr>)
         aspirine_record [Search_by_name ''ASPIRINE'', Approximate_search ''ASPIRINE'' 5]"
proof -
  have h1: "get_or_empty aspirine_record ''DCI1'' \<noteq> []"
    by (simp add: aspirine_dci1)
  have h2: "\<not> truthy (api_search_by_name seven_mapper (get_or_empty aspirine_record ''DCI1''))"
    by (simp add: aspirine_dci1 seven_mapper_def example_mapper_def truthy_def)
  have h3: "\<forall>t. ingredient_translations seven_mapper (upper (get_or_empty aspirine_record ''DCI1'')) = Some t
           \<longrightarrow> \<not> truthy (api_search_by_name seven_mapper t)"
    by (simp add: aspirine_dci1 upper_aspirine seven_mapper_def example_mapper_def)
  have h4: "api_approximate_search seven_mapper (get_or_empty aspirine_record ''DCI1'') 5
       = hd seven_candidates # tl seven_candidates"
    by (simp add: seven_mapper_def seven_candidates_def)
  have h5: "c_score (hd seven_candidates) \<ge> 80"
    by (simp add: seven_candidates_def)
  have t: "ingredient_translations seven_mapper ''ASPIRINE'' = None"
    by (simp add: seven_mapper_def example_mapper_def)
  have b: "c_rxcui (hd seven_candidates) = Some ''1191''"
    "c_term (hd seven_candidates) = Some ''aspirin''"
    "str_int (c_score (hd seven_candidates)) = ''95''"
    by (simp_all add: seven_candidates_def str_int_95)
  note f = fuzzy_high_strategy [OF h1 h2 h3 h4, of "[]", unfolded Let_def aspirine_dci1
      upper_aspirine t, THEN conjunct1, rule_format, OF h5, THEN conjunct1]
  from f h1 h2 h4 h5 show ?thesis
    by (simp add: b)
qed

text \<open>The resolver does not cap the list itself: of seven candidates returned, six
  become alternatives, not four.\<close>

theorem fuzzy_alternatives_uncapped_counterexample:
  "length (api_approximate_search seven_mapper ''ASPIRINE'' 5) = 7
   \<and> map_single_drug seven_mapper aspirine_record [] =
       (Inr aspirine_result,
        [Search_by_name ''ASPIRINE'', Approximate_search ''ASPIRINE'' 5,
         Get_related_concepts ''1191'' ''SCD+SBD''])
   \<and> length (alternative_matches aspirine_result) = 6
   \<and> min (7 :: nat) 5 - 1 = 4"
  by (simp add: seven_mapper_aspirine)
    (simp add: seven_mapper_def seven_candidates_def aspirine_result_def)

section \<open>Selection of the best product\<close>

text \<open>
  C3, as the code has it. Let the list of candidate products be not empty and let
  \<^verbatim>\<open>_find_best_product_match\<close> return. Then the loop has given every product the points
  of the scoring rule: 50 if the strength string is not blank and occurs in the display
  name without regard to case, 30 if the translated dose form does. The product returned
  is in the list, no product of the list has more points, and it is the first product
  of the list with the greatest points.
\<close>

theorem best_product_selection:
  assumes "products \<noteq> []"
    and "find_best_product_match self products target_strength target_form = Inr selected"
  shows "score_products self products target_strength target_form
           = Inr (map (\<lambda>p. (product_points self target_strength target_form p, p)) products)
       \<and> (\<exists>best\<in>set products. selected = Some best
             \<and> (\<forall>p\<in>set products. product_points self target_strength target_form p
                                     \<le> product_points self target_strength target_form best)
             \<and> find (\<lambda>p. \<forall>q\<in>set products. product_points self target_strength target_form q
                                              \<le> product_points self target_strength target_form p)
                  products = Some best)"
proof -
  let ?pts = "product_points self target_strength target_form"
  from find_best_returns [OF assms] obtain best where b: "best \<in> set products"
    and s: "selected = Some best"
    and mx: "\<forall>p\<in>set products. ?pts p \<le> ?pts best"
    and uniq: "\<forall>p\<in>set products. \<forall>q\<in>set products. ?pts p = ?pts q \<longrightarrow> p = q"
    and sc: "score_products self products target_strength target_form
               = Inr (map (\<lambda>p. (?pts p, p)) products)"
    by blast
  let ?top = "\<lambda>p. \<forall>q\<in>set products. ?pts q \<le> ?pts p"
  from b mx have "find ?top products \<noteq> None" by (auto simp: find_None_iff)
  then obtain p0 where f: "find ?top products = Some p0" by auto
  then have p0: "p0 \<in> set products" and t0: "?top p0"
    by (auto simp: find_Some_iff)
  from t0 b have "?pts best \<le> ?pts p0" by simp
  moreover from mx p0 have "?pts p0 \<le> ?pts best" by simp
  ultimately have "?pts p0 = ?pts best" by simp
  with uniq p0 b have "p0 = best" by simp
  with f b s mx sc show ?thesis by auto
qed

theorem best_product_selection_witness:
  "[aspirin_325, aspirin_500] \<noteq> []
   \<and> find_best_product_match example_mapper [aspirin_325, aspirin_500] ''500 MG'' ''COMPRIME''
       = Inr (Some aspirin_500)
   \<and> score_products example_mapper [aspirin_325, aspirin_500] ''500 MG'' ''COMPRIME''
       = Inr [(product_points example_mapper ''500 MG'' ''COMPRIME'' aspirin_325, aspirin_325),
              (product_points example_mapper ''500 MG'' ''COMPRIME'' aspirin_500, aspirin_500)]
   \<and> product_points example_mapper ''500 MG'' ''COMPRIME'' aspirin_325 = 30
   \<and> product_points example_mapper ''500 MG'' ''COMPRIME'' aspirin_500 = 80"
proof -
  have h1: "[aspirin_325, aspirin_500] \<noteq> []" by simp
  have p1: "product_points example_mapper ''500 MG'' ''COMPRIME'' aspirin_325 = 30"
    by code_simp
  have p2: "product_points example_mapper ''500 MG'' ''COMPRIME'' aspirin_500 = 80"
    by code_simp
  from best_product_selection [OF h1 select_500, THEN conjunct1] select_500 p1 p2
  show ?thesis by simp
qed

text \<open>The claim as stated gives 50 points whenever the strength string occurs in the
  name. For a record without dosage and unit the strength string is one space; it
  occurs in the name, and the product has the 30 points of the dose form only.\<close>

theorem blank_strength_counterexample:
  "get_or_empty acide_record ''DOSAGE1'' @ '' '' @ get_or_empty acide_record ''UNITE_DOSAGE1'' = '' ''
   \<and> sublist (upper '' '') (upper ''aspirin 325 MG Oral Tablet'')
   \<and> sublist (upper (get_or_empty acide_record ''FORME'')) (upper ''aspirin 325 MG Oral Tablet'')
   \<and> score_products example_mapper [aspirin_325] '' '' (get_or_empty acide_record ''FORME'')
       = Inr [(30, aspirin_325)]"
  by code_simp


section \<open>Validation before the return\<close>

text \<open>
  C4, as the code has it. For a record whose ingredient is not empty, every result that
  \<^verbatim>\<open>map_single_drug\<close> returns is the value of \<^verbatim>\<open>_validate_mapping\<close>, also when no strategy
  succeeded (then the fresh result is validated and returned); such a result without a
  match ends with the note that no mapping was found. For a record whose ingredient is
  empty the method returns before validation, with the note that no ingredient was
  specified as its only note. In both cases a result without a match has confidence 0.0.
\<close>

theorem validation_finalizes_result:
  "(\<forall>r. fst (map_single_drug self rec calls) = Inr r \<longrightarrow>
      (if get_or_empty rec ''DCI1'' = []
       then r = (new_result rec) \<lparr> validation_notes := [''No DCI1 ingredient specified''] \<rparr>
       else (\<exists>r0. r = validate_mapping self r0 rec)
            \<and> (\<not> truthy (rxcui r) \<longrightarrow> last (validation_notes r) = ''No RxNorm mapping found''))
      \<and> (\<not> truthy (rxcui r) \<longrightarrow> confidence_score r = 0))
   \<and> (get_or_empty rec ''DCI1'' \<noteq> []
        \<and> \<not> truthy (api_search_by_name self (get_or_empty rec ''DCI1''))
        \<and> (\<forall>t. ingredient_translations self (upper (get_or_empty rec ''DCI1'')) = Some t
               \<longrightarrow> \<not> truthy (api_search_by_name self t))
        \<and> (case api_approximate_search self (get_or_empty rec ''DCI1'') 5 of
              [] \<Rightarrow> True | best_match # others \<Rightarrow> c_score best_match < 80)
      \<longrightarrow> fst (map_single_drug self rec calls) = Inr (validate_mapping self (new_result rec) rec))"
proof (intro conjI allI impI)
  fix r assume r: "fst (map_single_drug self rec calls) = Inr r"
  show "if get_or_empty rec ''DCI1'' = []
       then r = (new_result rec) \<lparr> validation_notes := [''No DCI1 ingredient specified''] \<rparr>
       else (\<exists>r0. r = validate_mapping self r0 rec)
            \<and> (\<not> truthy (rxcui r) \<longrightarrow> last (validation_notes r) = ''No RxNorm mapping found'')"
  proof (cases "get_or_empty rec ''DCI1'' = []")
    case True
    with r show ?thesis by (simp add: map_single_drug_def new_result_def)
  next
    case False
    from map_single_drug_validated [OF False r] obtain r0 where "r = validate_mapping self r0 rec" ..
    with False validated_no_match [OF this] show ?thesis by auto
  qed
  show "confidence_score r = 0" if "\<not> truthy (rxcui r)"
  proof (cases "get_or_empty rec ''DCI1'' = []")
    case True
    with r show ?thesis by (auto simp: map_single_drug_def new_result_def)
  next
    case False
    from map_single_drug_validated [OF False r] obtain r0 where "r = validate_mapping self r0 rec" ..
    from validated_no_match [OF this that] show ?thesis by simp
  qed
next
  assume a: "get_or_empty rec ''DCI1'' \<noteq> []
        \<and> \<not> truthy (api_search_by_name self (get_or_empty rec ''DCI1''))
        \<and> (\<forall>t. ingredient_translations self (upper (get_or_empty rec ''DCI1'')) = Some t
               \<longrightarrow> \<not> truthy (api_search_by_name self t))
        \<and> (case api_approximate_search self (get_or_empty rec ''DCI1'') 5 of
              [] \<Rightarrow> True | best_match # others \<Rightarrow> c_score best_match < 80)"
  have d: "dci1 (new_result rec) = get_or_empty rec ''DCI1''" by (simp add: new_result_def)
  have f: "fst (fuzzy_matching self (new_result rec) rec cs) = Inr (validate_mapping self (new_result rec) rec)" for cs
    using a by (auto simp: fuzzy_matching_def Let_def d split: list.splits)
  show "fst (map_single_drug self rec calls) = Inr (validate_mapping self (new_result rec) rec)"
    using a by (auto simp: map_single_drug_def Let_def d f split: option.splits)
qed

theorem validation_finalizes_result_witness:
  "fst (map_single_drug example_mapper unknown_record []) =
     Inr \<lparr> cnops_code = ''M3'', original_name = ''INCONNU'', dci1 = ''XYZ'', rxcui = None,
           rxnorm_name = None, confidence_score = 0, mapping_method = ''none'',
           validation_notes = [''No RxNorm mapping found''], alternative_matches = [] \<rparr>
   \<and> get_or_empty unknown_record ''DCI1'' \<noteq> []
   \<and> (\<exists>r0. fst (map_single_drug example_mapper unknown_record [])
              = Inr (validate_mapping example_mapper r0 unknown_record))"
proof -
  have d: "get_or_empty unknown_record ''DCI1'' = ''XYZ''"
    by (simp add: unknown_record_def get_or_empty_def)
  have u: "upper ''XYZ'' = ''XYZ''" by (simp add: upper_def upper_char_def)
  note t = validation_finalizes_result [of example_mapper unknown_record "[]", unfolded d]
  have m: "fst (map_single_drug example_mapper unknown_record [])
          = Inr (validate_mapping example_mapper (new_result unknown_record) unknown_record)"
    using t [THEN conjunct2] by (simp add: example_mapper_def truthy_def u)
  have v: "validate_mapping example_mapper (new_result unknown_record) unknown_record
      = \<lparr> cnops_code = ''M3'', original_name = ''INCONNU'', dci1 = ''XYZ'', rxcui = None,
           rxnorm_name = None, confidence_score = 0, mapping_method = ''none'',
           validation_notes = [''No RxNorm mapping found''], alternative_matches = [] \<rparr>"
    by (simp add: validate_mapping_def new_result_def truthy_def unknown_record_def get_or_empty_def)
  have e: "\<exists>r0. fst (map_single_drug example_mapper unknown_record [])
              = Inr (validate_mapping example_mapper r0 unknown_record)"
    using m by blast
  from m v d e show ?thesis by simp
qed

text \<open>The claim as stated fails on a record with an empty ingredient: the result has no
  match, and the validation note is not among its notes.\<close>

theorem empty_ingredient_not_validated_counterexample:
  "map_single_drug example_mapper no_ingredient_record [] = (Inr no_ingredient_result, [])
   \<and> \<not> truthy (rxcui no_ingredient_result)
   \<and> ''No RxNorm mapping found'' \<notin> set (validation_notes no_ingredient_result)"
  by (simp add: map_single_drug_def new_result_def no_ingredient_record_def get_or_empty_def
        no_ingredient_result_def truthy_def)

section \<open>Identifier, method and confidence of a returned result\<close>

text \<open>
  C5, as the code has it. For every result that \<^verbatim>\<open>map_single_drug\<close> returns:
  if the identifier is absent the confidence is 0.0, which validation enforces at the
  exit, also after enhancement replaced the identifier by an absent one; and if the
  identifier is present the method is neither \<^verbatim>\<open>none\<close> nor \<^verbatim>\<open>error\<close>. Conversely, a
  confidence of 0.0 means that the identifier is absent provided that neither
  configured penalty factor is zero; and a method other than \<^verbatim>\<open>none\<close> and \<^verbatim>\<open>error\<close>
  means that the identifier is present provided that every candidate of the approximate
  search and every related product carries an identifier that is not empty (an
  identifier that is present is never the empty string then).
\<close>

theorem identifier_method_confidence:
  assumes "fst (map_single_drug self rec calls) = Inr r"
  shows "(\<not> truthy (rxcui r) \<longrightarrow> confidence_score r = 0)
       \<and> (truthy (rxcui r) \<longrightarrow> mapping_method r \<noteq> ''none'' \<and> mapping_method r \<noteq> ''error'')
       \<and> (form_mismatch_penalty self \<noteq> 0 \<and> combination_drug_penalty self \<noteq> 0
            \<longrightarrow> (confidence_score r = 0 \<longleftrightarrow> \<not> truthy (rxcui r)))
       \<and> ((\<forall>term n. \<forall>c\<in>set (api_approximate_search self term n). truthy (c_rxcui c))
            \<and> (\<forall>ident tty. \<forall>p\<in>set (api_get_related_concepts self ident tty). truthy (p_rxcui p))
            \<longrightarrow> (truthy (rxcui r) \<longleftrightarrow> mapping_method r \<noteq> ''none'' \<and> mapping_method r \<noteq> ''error'')
                \<and> (truthy (rxcui r) \<longleftrightarrow> rxcui r \<noteq> None))"
proof -
  note ret = assms
  let ?pen = "form_mismatch_penalty self \<noteq> 0 \<and> combination_drug_penalty self \<noteq> 0"
  let ?ids = "(\<forall>term n. \<forall>c\<in>set (api_approximate_search self term n). truthy (c_rxcui c))
            \<and> (\<forall>ident tty. \<forall>p\<in>set (api_get_related_concepts self ident tty). truthy (p_rxcui p))"
  have cases: "(mapping_method r \<in> {''direct_exact'', ''translated_exact'', ''fuzzy_high''}
                 \<and> (\<not> truthy (rxcui r) \<longrightarrow> confidence_score r = 0)
                 \<and> (?pen \<longrightarrow> truthy (rxcui r) \<longrightarrow> confidence_score r \<noteq> 0)
                 \<and> (?ids \<longrightarrow> truthy (rxcui r)))
       \<or> (rxcui r = None \<and> confidence_score r = 0 \<and> mapping_method r = ''none'')"
  proof (cases "dci1 (new_result rec) = []")
    case True
    with ret show ?thesis
      by (auto simp: map_single_drug_def new_result_def)
  next
    case ne: False
    show ?thesis
    proof (cases "truthy (api_search_by_name self (dci1 (new_result rec)))")
      case True
      let ?base = "(new_result rec)
                         \<lparr> rxcui := api_search_by_name self (dci1 (new_result rec)),
                           rxnorm_name := Some (dci1 (new_result rec)),
                           confidence_score := 9 / 10,
                           mapping_method := ''direct_exact'' \<rparr>"
      from True ne ret
      have e: "fst (enhance_validate_return self ?base rec
                  (calls @ [Search_by_name (dci1 (new_result rec))])) = Inr r"
        by (simp add: map_single_drug_def Let_def)
      have c: "0 < confidence_score ?base" by simp
      from enhanced_validated [OF c e] True show ?thesis by simp
    next
      case miss: False
      show ?thesis
      proof (cases "ingredient_translations self (upper (dci1 (new_result rec)))")
        case None
        with ne miss ret obtain cs where "fst (fuzzy_matching self (new_result rec) rec cs) = Inr r"
          by (simp add: map_single_drug_def Let_def)
        from fuzzy_returned [OF this] show ?thesis by auto
      next
        case (Some translated)
        show ?thesis
        proof (cases "truthy (api_search_by_name self translated)")
          case True
          let ?base = "(new_result rec)
                         \<lparr> rxcui := api_search_by_name self translated,
                           rxnorm_name := Some translated,
                           confidence_score := 8 / 10,
                           mapping_method := ''translated_exact'',
                           validation_notes :=
                             validation_notes (new_result rec)
                               @ [''Used translation: '' @ dci1 (new_result rec) @ '' -> '' @ translated] \<rparr>"
          from True ne miss Some ret
          have e: "fst (enhance_validate_return self ?base rec
                  (calls @ [Search_by_name (dci1 (new_result rec))] @ [Search_by_name translated])) = Inr r"
            by (simp add: map_single_drug_def Let_def)
          have c: "0 < confidence_score ?base" by simp
          from enhanced_validated [OF c e] True show ?thesis by simp
        next
          case False
          with ne miss Some ret obtain cs where "fst (fuzzy_matching self (new_result rec) rec cs) = Inr r"
            by (simp add: map_single_drug_def Let_def)
          from fuzzy_returned [OF this] show ?thesis by auto
        qed
      qed
    qed
  qed
  then show ?thesis
    using truthy_not_None [of "rxcui r"] by (auto simp: truthy_def)
qed

theorem identifier_method_confidence_witness:
  "form_mismatch_penalty select_mapper \<noteq> 0
   \<and> combination_drug_penalty select_mapper \<noteq> 0
   \<and> api_get_related_concepts select_mapper ''1191'' ''SCD+SBD'' = [aspirin_325, aspirin_500]
   \<and> truthy (p_rxcui aspirin_325) \<and> truthy (p_rxcui aspirin_500)
   \<and> fst (map_single_drug select_mapper aspirin_record []) =
     Inr \<lparr> cnops_code = ''M1'', original_name = ''ASPRO'', dci1 = ''aspirin'',
           rxcui = Some ''198467'', rxnorm_name = Some ''aspirin 500 MG Oral Tablet'',
           confidence_score = 8 / 10, mapping_method = ''direct_exact'',
           validation_notes = [''Enhanced with specific product'', ''Low name similarity: 42%'',
                               ''HIGH confidence mapping''],
           alternative_matches = [] \<rparr>
   \<and> truthy (Some ''198467'') \<and> ''direct_exact'' \<noteq> ''none'' \<and> ''direct_exact'' \<noteq> ''error''
   \<and> (8 / 10 :: rat) \<noteq> 0
   \<and> fst (map_single_drug no_product_id_mapper aspirin_record []) =
     Inr \<lparr> cnops_code = ''M1'', original_name = ''ASPRO'', dci1 = ''aspirin'',
           rxcui = None, rxnorm_name = Some ''aspirin 500 MG Oral Tablet'', confidence_score = 0,
           mapping_method = ''direct_exact'',
           validation_notes = [''Enhanced with specific product'', ''No RxNorm mapping found''],
           alternative_matches = [] \<rparr>"
proof -
  have h1: "\<forall>term n. \<forall>c\<in>set (api_approximate_search select_mapper term n). truthy (c_rxcui c)"
    by (simp add: select_mapper_def example_mapper_def)
  have h2: "\<forall>ident tty. \<forall>p\<in>set (api_get_related_concepts select_mapper ident tty). truthy (p_rxcui p)"
    by (simp add: select_mapper_def example_mapper_def aspirin_325_def aspirin_500_def truthy_def)
  have h3: "form_mismatch_penalty select_mapper \<noteq> 0"
    by (simp add: select_mapper_def example_mapper_def)
  have h4: "combination_drug_penalty select_mapper \<noteq> 0"
    by (simp add: select_mapper_def example_mapper_def)
  have h5: "api_get_related_concepts select_mapper ''1191'' ''SCD+SBD'' = [aspirin_325, aspirin_500]"
    by (simp add: select_mapper_def)
  have h6: "truthy (p_rxcui aspirin_325) \<and> truthy (p_rxcui aspirin_500)"
    by (simp add: aspirin_325_def aspirin_500_def truthy_def)
  note t1 = identifier_method_confidence [OF select_mapper_result]
  note t2 = identifier_method_confidence [OF no_product_id_result, THEN conjunct1]
  from t1 h1 h2 h3 h4 have a: "truthy (Some ''198467'') \<and> (8 / 10 :: rat) \<noteq> 0"
    by simp
  from t2 have b: "confidence_score
     \<lparr> cnops_code = ''M1'', original_name = ''ASPRO'', dci1 = ''aspirin'',
           rxcui = None, rxnorm_name = Some ''aspirin 500 MG Oral Tablet'', confidence_score = 0,
           mapping_method = ''direct_exact'',
           validation_notes = [''Enhanced with specific product'', ''No RxNorm mapping found''],
           alternative_matches = [] \<rparr> = (0 :: rat)"
    by simp
  from a b h3 h4 h5 h6 select_mapper_result no_product_id_result show ?thesis by simp
qed

text \<open>Validation leaves the method of a result without identifier as it is, and it
  multiplies by whatever factor is configured. So the claim as stated fails in its
  first half for a fuzzy candidate without identifier and for a selected product without
  identifier (the method stays \<^verbatim>\<open>fuzzy_high\<close> or \<^verbatim>\<open>direct_exact\<close>; the confidence is 0.0
  there, as the second half says), and in its second half for a penalty factor of zero
  (the confidence of a matched result is 0.0).\<close>

theorem identifier_method_confidence_counterexample:
  "fst (map_single_drug no_candidate_id_mapper aspirine_record []) =
     Inr \<lparr> cnops_code = ''M5'', original_name = ''ASPIRINE UPSA'', dci1 = ''ASPIRINE'',
           rxcui = None, rxnorm_name = Some ''aspirin'', confidence_score = 0,
           mapping_method = ''fuzzy_high'',
           validation_notes = [''Fuzzy match score: 95'', ''No RxNorm mapping found''],
           alternative_matches = [] \<rparr>
   \<and> fst (map_single_drug no_product_id_mapper aspirin_record []) =
     Inr \<lparr> cnops_code = ''M1'', original_name = ''ASPRO'', dci1 = ''aspirin'',
           rxcui = None, rxnorm_name = Some ''aspirin 500 MG Oral Tablet'', confidence_score = 0,
           mapping_method = ''direct_exact'',
           validation_notes = [''Enhanced with specific product'', ''No RxNorm mapping found''],
           alternative_matches = [] \<rparr>
   \<and> fst (map_single_drug zero_penalty_mapper acide_record []) =
     Inr \<lparr> cnops_code = ''M4'', original_name = ''ASPEGIC'', dci1 = ''ACIDE ACETYLSALICYLIQUE'',
           rxcui = Some ''1191'', rxnorm_name = Some ''aspirin'', confidence_score = 0,
           mapping_method = ''translated_exact'',
           validation_notes = [''Used translation: ACIDE ACETYLSALICYLIQUE -> aspirin'',
                               ''Low name similarity: 27%'',
                               ''VERY LOW confidence - manual review required''],
           alternative_matches = [] \<rparr>"
  by code_simp

section \<open>Empty ingredient\<close>

text \<open>
  C6. When the ingredient field of the record is empty, \<^verbatim>\<open>map_single_drug\<close> returns at
  once the fresh result with the single note that no ingredient was specified: method
  \<^verbatim>\<open>none\<close>, confidence 0.0, no identifier. The list of client calls is unchanged, so
  neither the exact, the approximate nor the related-concept lookup was called.
\<close>

theorem empty_ingredient_returns_at_once:
  assumes "get_or_empty rec ''DCI1'' = []"
  shows "map_single_drug self rec calls
           = (Inr ((new_result rec) \<lparr> validation_notes := [''No DCI1 ingredient specified''] \<rparr>), calls)
       \<and> snd (map_single_drug self rec calls) = calls
       \<and> (\<exists>r. fst (map_single_drug self rec calls) = Inr r
              \<and> mapping_method r = ''none'' \<and> confidence_score r = 0
              \<and> rxcui r = None
              \<and> validation_notes r = [''No DCI1 ingredient specified''])"
  using assms by (simp add: map_single_drug_def new_result_def)

theorem empty_ingredient_returns_at_once_witness:
  "get_or_empty no_ingredient_record ''DCI1'' = []
   \<and> map_single_drug example_mapper no_ingredient_record [Search_by_name ''x'']
       = (Inr \<lparr> cnops_code = ''M2'', original_name = ''PRODUIT'', dci1 = [], rxcui = None,
                rxnorm_name = None, confidence_score = 0, mapping_method = ''none'',
                validation_notes = [''No DCI1 ingredient specified''],
                alternative_matches = [] \<rparr>, [Search_by_name ''x''])"
proof -
  have h: "get_or_empty no_ingredient_record ''DCI1'' = []"
    by (simp add: no_ingredient_record_def get_or_empty_def)
  from empty_ingredient_returns_at_once [OF h, of example_mapper "[Search_by_name ''x'']"] h
  show ?thesis
    by (simp add: new_result_def no_ingredient_record_def get_or_empty_def)
qed

section \<open>The name-similarity penalty\<close>

text \<open>
  C7. Let a result be matched, with a matched name and an ingredient to compare (the
  ratio is measured between these two, upper-cased). If the ratio is below the
  configured \<^verbatim>\<open>name_similarity_threshold\<close>, validation multiplies the confidence by the
  configured \<^verbatim>\<open>form_mismatch_penalty\<close> (and by nothing else, unless the combination
  penalty applies as well) and appends, right after the notes present before, the note
  that gives the measured ratio.
\<close>

theorem low_similarity_penalty:
  assumes "truthy (rxcui r)" and "truthy (rxnorm_name r)" and "dci1 r \<noteq> []"
    and "of_int (fuzz_ratio self (upper (dci1 r)) (upper (or_empty (rxnorm_name r))))
           < name_similarity_threshold self"
  shows "let similarity = fuzz_ratio self (upper (dci1 r)) (upper (or_empty (rxnorm_name r)));
             validated = validate_mapping self r rec
         in confidence_score validated
              = confidence_score r * form_mismatch_penalty self
                  * (if sublist ''/'' (dci1 r) \<and> \<not> sublist ''/'' (or_empty (rxnorm_name r))
                     then combination_drug_penalty self else 1)
          \<and> prefix (validation_notes r @ [''Low name similarity: '' @ str_int similarity @ ''%''])
                (validation_notes validated)"
  using assms
  by (simp add: validate_mapping_def check_name_similarity_def check_combination_drugs_def
        categorize_confidence_def Let_def)

theorem low_similarity_penalty_witness:
  "truthy (rxcui translated_base) \<and> truthy (rxnorm_name translated_base)
   \<and> dci1 translated_base \<noteq> []
   \<and> of_int (fuzz_ratio example_mapper (upper (dci1 translated_base))
               (upper (or_empty (rxnorm_name translated_base))))
        < name_similarity_threshold example_mapper
   \<and> confidence_score (validate_mapping example_mapper translated_base acide_record)
        = 8 / 10 * (8 / 10)
   \<and> prefix [''Used translation: ACIDE ACETYLSALICYLIQUE -> aspirin'', ''Low name similarity: 27%'']
        (validation_notes (validate_mapping example_mapper translated_base acide_record))"
proof -
  have h1: "truthy (rxcui translated_base)" by (simp add: translated_base_def truthy_def)
  have h2: "truthy (rxnorm_name translated_base)" by (simp add: translated_base_def truthy_def)
  have h3: "dci1 translated_base \<noteq> []" by (simp add: translated_base_def)
  have s: "fuzz_ratio example_mapper (upper (dci1 translated_base))
               (upper (or_empty (rxnorm_name translated_base))) = 27"
    by (simp add: translated_base_def example_mapper_def example_ratio_def or_empty_def
          upper_acide upper_aspirin)
  have h4: "of_int (fuzz_ratio example_mapper (upper (dci1 translated_base))
               (upper (or_empty (rxnorm_name translated_base))))
        < name_similarity_threshold example_mapper"
    unfolding s by (simp add: example_mapper_def)
  have c: "\<not> sublist ''/'' (dci1 translated_base)"
    by (simp add: translated_base_def acide_no_slash)
  note t = low_similarity_penalty [OF h1 h2 h3 h4, of acide_record, unfolded Let_def s str_int_27]
  have p: "form_mismatch_penalty example_mapper = 8 / 10" by (simp add: example_mapper_def)
  have n: "validation_notes translated_base = [''Used translation: ACIDE ACETYLSALICYLIQUE -> aspirin'']"
    "confidence_score translated_base = 8 / 10"
    by (simp_all add: translated_base_def)
  from t c have "confidence_score (validate_mapping example_mapper translated_base acide_record)
        = 8 / 10 * (8 / 10)"
    and "prefix [''Used translation: ACIDE ACETYLSALICYLIQUE -> aspirin'', ''Low name similarity: 27%'']
        (validation_notes (validate_mapping example_mapper translated_base acide_record))"
    by (simp_all add: p n)
  with h1 h2 h3 h4 show ?thesis by blast
qed


section \<open>The batch loop\<close>

text \<open>
  C8. The loop of \<^verbatim>\<open>process_file\<close> produces one row for each record, in the order of
  the records. When the resolution of a record raises an exception, its row is the error
  row: method \<^verbatim>\<open>error\<close>, confidence 0.0, no identifier, and the text of the exception
  after \<^verbatim>\<open>Error: \<close> as notes; the rows of the records after it are produced as
  usual. When the resolution returns a result, the row is made of that result.
\<close>

theorem batch_survives_exceptions:
  "length (fst (process_rows self rows calls)) = length rows
   \<and> (\<forall>i<length rows.
        (\<forall>e. fst (map_single_drug self (rows ! i) []) = Inl e \<longrightarrow>
           fst (process_rows self rows calls) ! i = error_row (rows ! i) e
           \<and> row_mapping_method (fst (process_rows self rows calls) ! i) = ''error''
           \<and> row_confidence_score (fst (process_rows self rows calls) ! i) = 0
           \<and> row_validation_notes (fst (process_rows self rows calls) ! i)
               = ''Error: '' @ str_exception e
           \<and> row_rxcui (fst (process_rows self rows calls) ! i) = None
           \<and> row_dci1 (fst (process_rows self rows calls) ! i) = get_or_empty (rows ! i) ''DCI1'')
        \<and> (\<forall>r. fst (map_single_drug self (rows ! i) []) = Inr r \<longrightarrow>
             fst (process_rows self rows calls) ! i = result_row r))"
proof -
  have l: "length (fst (process_rows self rows calls)) = length rows"
    by (simp add: process_rows_fst)
  have n: "fst (process_rows self rows calls) ! i = fst (process_row self (rows ! i) [])"
    if "i < length rows" for i
    using that by (simp add: process_rows_fst)
  show ?thesis
    using l by (auto simp: n process_row_fst error_row_def)
qed

theorem batch_survives_exceptions_witness:
  "(1::nat) < length three_records
   \<and> fst (map_single_drug tie_mapper (three_records ! 1) []) = Inl (TypeError dict_order_message)
   \<and> length (fst (process_rows tie_mapper three_records [])) = 3
   \<and> fst (process_rows tie_mapper three_records []) ! 1
       = \<lparr> row_cnops_code = ''M1'', row_original_name = ''ASPRO'', row_dci1 = ''aspirin'',
           row_rxcui = None, row_rxnorm_name = None, row_confidence_score = 0,
           row_mapping_method = ''error'',
           row_validation_notes = ''Error: '' @ dict_order_message,
           row_alternatives_count = 0 \<rparr>
   \<and> row_mapping_method (fst (process_rows tie_mapper three_records []) ! 2) = ''none''"
proof -
  have h1: "(1::nat) < length three_records" by (simp add: three_records_def)
  have h2: "fst (map_single_drug tie_mapper (three_records ! 1) []) = Inl (TypeError dict_order_message)"
    by code_simp
  have h3: "fst (map_single_drug tie_mapper (three_records ! 2) []) =
     Inr ((new_result no_ingredient_record) \<lparr> validation_notes := [''No DCI1 ingredient specified''] \<rparr>)"
    by code_simp
  have h4: "(2::nat) < length three_records" by (simp add: three_records_def)
  note t = batch_survives_exceptions [of tie_mapper three_records "[]"]
  from t have a: "length (fst (process_rows tie_mapper three_records [])) = 3"
    by (simp add: three_records_def)
  from t h1 h2 have b: "fst (process_rows tie_mapper three_records []) ! 1
      = error_row (three_records ! 1) (TypeError dict_order_message)"
    by blast
  from t h4 h3 have c: "fst (process_rows tie_mapper three_records []) ! 2
      = result_row ((new_result no_ingredient_record) \<lparr> validation_notes := [''No DCI1 ingredient specified''] \<rparr>)"
    by blast
  have d: "error_row (three_records ! 1) (TypeError dict_order_message)
      = \<lparr> row_cnops_code = ''M1'', row_original_name = ''ASPRO'', row_dci1 = ''aspirin'',
           row_rxcui = None, row_rxnorm_name = None, row_confidence_score = 0,
           row_mapping_method = ''error'',
           row_validation_notes = ''Error: '' @ dict_order_message,
           row_alternatives_count = 0 \<rparr>"
    by (simp add: error_row_def three_records_def aspirin_record_def get_or_empty_def)
  from h1 h2 a b c d show ?thesis
    by (simp add: result_row_def new_result_def)
qed

section \<open>The translated scenario\<close>

text \<open>
  C9, as the code has it. The record has the ingredient ACIDE ACETYLSALICYLIQUE; the
  exact lookup of it misses, the translation table maps it to aspirin, the exact lookup
  of aspirin gives 1191, the related-concept query gives nothing, the threshold for the
  high tier is at most 0.8, and the similarity ratio of ACIDE ACETYLSALICYLIQUE and
  ASPIRIN is not below the configured name-similarity threshold. Then the result has
  the identifier 1191, the name aspirin, the method \<^verbatim>\<open>translated_exact\<close>, confidence
  0.8, and as notes the translation pair and the high-confidence tag.
\<close>

theorem acide_scenario:
  assumes "get_or_empty rec ''DCI1'' = ''ACIDE ACETYLSALICYLIQUE''"
    and "\<not> truthy (api_search_by_name self ''ACIDE ACETYLSALICYLIQUE'')"
    and "ingredient_translations self ''ACIDE ACETYLSALICYLIQUE'' = Some ''aspirin''"
    and "api_search_by_name self ''aspirin'' = Some ''1191''"
    and "api_get_related_concepts self ''1191'' ''SCD+SBD'' = []"
    and "\<not> of_int (fuzz_ratio self ''ACIDE ACETYLSALICYLIQUE'' ''ASPIRIN'')
             < name_similarity_threshold self"
    and "threshold_high self \<le> 8 / 10"
  shows "map_single_drug self rec calls =
    (Inr \<lparr> cnops_code = get_or_empty rec ''CODE'', original_name = get_or_empty rec ''NOM'',
            dci1 = ''ACIDE ACETYLSALICYLIQUE'', rxcui = Some ''1191'',
            rxnorm_name = Some ''aspirin'', confidence_score = 8 / 10,
            mapping_method = ''translated_exact'',
            validation_notes = [''Used translation: ACIDE ACETYLSALICYLIQUE -> aspirin'',
                                ''HIGH confidence mapping''],
            alternative_matches = [] \<rparr>,
     calls @ [Search_by_name ''ACIDE ACETYLSALICYLIQUE'', Search_by_name ''aspirin'',
              Get_related_concepts ''1191'' ''SCD+SBD''])"
  using assms
  by (simp add: map_single_drug_def new_result_def Let_def upper_acide upper_aspirin
        enhance_validate_return_def enhance_with_products_def validate_mapping_def
        check_name_similarity_def check_combination_drugs_def categorize_confidence_def
        truthy_def or_empty_def acide_no_slash)

theorem acide_scenario_witness:
  "get_or_empty acide_record ''DCI1'' = ''ACIDE ACETYLSALICYLIQUE''
   \<and> threshold_high (example_mapper \<lparr> name_similarity_threshold := 20 \<rparr>) \<le> 8 / 10
   \<and> map_single_drug (example_mapper \<lparr> name_similarity_threshold := 20 \<rparr>) acide_record [] =
    (Inr \<lparr> cnops_code = ''M4'', original_name = ''ASPEGIC'',
            dci1 = ''ACIDE ACETYLSALICYLIQUE'', rxcui = Some ''1191'',
            rxnorm_name = Some ''aspirin'', confidence_score = 8 / 10,
            mapping_method = ''translated_exact'',
            validation_notes = [''Used translation: ACIDE ACETYLSALICYLIQUE -> aspirin'',
                                ''HIGH confidence mapping''],
            alternative_matches = [] \<rparr>,
     [Search_by_name ''ACIDE ACETYLSALICYLIQUE'', Search_by_name ''aspirin'',
      Get_related_concepts ''1191'' ''SCD+SBD''])"
proof -
  let ?m = "example_mapper \<lparr> name_similarity_threshold := 20 \<rparr>"
  have h1: "get_or_empty acide_record ''DCI1'' = ''ACIDE ACETYLSALICYLIQUE''"
    by (simp add: acide_record_def get_or_empty_def)
  have h2: "\<not> truthy (api_search_by_name ?m ''ACIDE ACETYLSALICYLIQUE'')"
    by (simp add: example_mapper_def truthy_def)
  have h3: "ingredient_translations ?m ''ACIDE ACETYLSALICYLIQUE'' = Some ''aspirin''"
    by (simp add: example_mapper_def)
  have h4: "api_search_by_name ?m ''aspirin'' = Some ''1191''"
    by (simp add: example_mapper_def)
  have h5: "api_get_related_concepts ?m ''1191'' ''SCD+SBD'' = []"
    by (simp add: example_mapper_def)
  have h6: "\<not> of_int (fuzz_ratio ?m ''ACIDE ACETYLSALICYLIQUE'' ''ASPIRIN'')
             < name_similarity_threshold ?m"
    by (simp add: example_mapper_def example_ratio_def)
  have h7: "threshold_high ?m \<le> 8 / 10"
    by (simp add: example_mapper_def)
  from acide_scenario [OF h1 h2 h3 h4 h5 h6 h7, of "[]"] h1 h7 show ?thesis
    by (simp add: acide_record_def get_or_empty_def)
qed

text \<open>Without the condition on the similarity the claim fails: with a threshold of 70
  and a penalty of 0.8 the ratio 27 of the two names is penalised, the confidence is
  0.64 and the tier is medium, although 0.8 qualifies as high.\<close>

theorem acide_scenario_penalty_counterexample:
  "map_single_drug example_mapper acide_record [] =
    (Inr \<lparr> cnops_code = ''M4'', original_name = ''ASPEGIC'',
            dci1 = ''ACIDE ACETYLSALICYLIQUE'', rxcui = Some ''1191'',
            rxnorm_name = Some ''aspirin'', confidence_score = 16 / 25,
            mapping_method = ''translated_exact'',
            validation_notes = [''Used translation: ACIDE ACETYLSALICYLIQUE -> aspirin'',
                                ''Low name similarity: 27%'',
                                ''MEDIUM confidence mapping''],
            alternative_matches = [] \<rparr>,
     [Search_by_name ''ACIDE ACETYLSALICYLIQUE'', Search_by_name ''aspirin'',
      Get_related_concepts ''1191'' ''SCD+SBD''])
   \<and> threshold_high example_mapper \<le> 8 / 10
   \<and> (16 / 25 :: rat) \<noteq> 8 / 10"
  by (simp add: map_single_drug_def new_result_def Let_def upper_acide upper_aspirin
        enhance_validate_return_def enhance_with_products_def validate_mapping_def
        check_name_similarity_def check_combination_drugs_def categorize_confidence_def
        truthy_def or_empty_def acide_record_def get_or_empty_def example_mapper_def
        example_ratio_def str_int_27 acide_no_slash)

section \<open>Two products with the same score\<close>

text \<open>
  C10. The claim is that a list of related products that is not empty always yields a
  selected product, whose identifier and name replace those of the match and which adds
  0.1 to the confidence. It holds for the lists on which the selection returns
  (\<open>find_best_returns\<close>), and fails on every list with two different products of equal
  score (\<open>equal_scores_raise\<close>). The record below has the exact match 1191 and the
  strength 500 MG; the client returns two tablets of other strengths, which both score
  30 for the dose form. Sorting the two tuples compares the two dictionaries, and
  \<^verbatim>\<open>map_single_drug\<close> raises \<^verbatim>\<open>TypeError\<close> instead of returning a result.
\<close>

theorem tied_products_raise:
  "api_get_related_concepts tie_mapper ''1191'' ''SCD+SBD'' = [aspirin_325, aspirin_81]
   \<and> score_products tie_mapper [aspirin_325, aspirin_81] ''500 MG'' ''COMPRIME''
       = Inr [(30, aspirin_325), (30, aspirin_81)]
   \<and> map_single_drug tie_mapper aspirin_record [] =
       (Inl (TypeError dict_order_message),
        [Search_by_name ''aspirin'', Get_related_concepts ''1191'' ''SCD+SBD''])"
  by code_simp

end
